theory Spec2Isabelle
  imports Main "HOL-Library.Word"
begin

unbundle bit_operations_syntax

section \<open>The Go standard library, as far as the gateway uses it\<close>

text \<open>
  The gateway calls a handful of functions of Go's \<^verbatim>\<open>strings\<close> and \<^verbatim>\<open>net\<close> packages.
  Those whose behaviour on every byte string is a few lines (\<^verbatim>\<open>strings.Split\<close> on
  a one-byte separator, \<^verbatim>\<open>strings.Contains\<close>, \<^verbatim>\<open>strings.HasSuffix\<close>,
  \<^verbatim>\<open>strconv.Itoa\<close>) are defined here. The others are Unicode-aware or parse both
  address families; the gateway's functions take them as a record \<open>L\<close> of library
  functions, so that every general theorem below holds whatever the library does.
  One instance, \<open>golib\<close>, is given further down for ASCII strings and dotted-quad IPv4
  addresses; the concrete examples are evaluated with it.
\<close>

datatype AddrError =
    MissingPort
  | TooManyColons
  | MissingBracket
  | UnexpectedOpen
  | UnexpectedClose

record ('ip, 'net) library =
  TrimSpace :: "string \<Rightarrow> string"
  ToLower :: "string \<Rightarrow> string"
  SplitHostPort :: "string \<Rightarrow> AddrError + string \<times> string"
  ParseIP :: "string \<Rightarrow> 'ip option"
  ParseCIDR :: "string \<Rightarrow> 'net option"
  Contains :: "'net \<Rightarrow> 'ip \<Rightarrow> bool"

text \<open>
  \<^verbatim>\<open>SplitHostPort\<close> returns \<open>Inl\<close> of the error or \<open>Inr (host, port)\<close>;
  \<^verbatim>\<open>ParseIP\<close> returns \<open>None\<close> for Go's \<^verbatim>\<open>nil\<close>; \<^verbatim>\<open>ParseCIDR\<close> returns \<open>None\<close> when
  Go returns an error and the network otherwise (the gateway discards the address).
\<close>

text \<open>\<^verbatim>\<open>strings.Split(s, sep)\<close> for a separator of one byte.\<close>

fun Split :: "string \<Rightarrow> char \<Rightarrow> string list" where
  "Split [] sep = [[]]"
| "Split (c # cs) sep =
     (if c = sep then [] # Split cs sep
      else (case Split cs sep of [] \<Rightarrow> [[c]] | x # xs \<Rightarrow> (c # x) # xs))"

text \<open>\<^verbatim>\<open>strings.Contains(s, "/")\<close>.\<close>

definition ContainsSlash :: "string \<Rightarrow> bool" where
  "ContainsSlash s = (CHR ''/'' \<in> set s)"

text \<open>\<^verbatim>\<open>strings.HasSuffix\<close>: \<^verbatim>\<open>len(s) >= len(suffix) && s[len(s)-len(suffix):] == suffix\<close>.\<close>

definition HasSuffix :: "string \<Rightarrow> string \<Rightarrow> bool" where
  "HasSuffix s suffix =
     (length s \<ge> length suffix \<and> drop (length s - length suffix) s = suffix)"

text \<open>\<^verbatim>\<open>strconv.Itoa\<close>: the decimal text of an integer.\<close>

definition digit_char :: "nat \<Rightarrow> char" where
  "digit_char d = ''0123456789'' ! d"

function utoa :: "nat \<Rightarrow> string" where
  "utoa n = (if n < 10 then [digit_char n] else utoa (n div 10) @ [digit_char (n mod 10)])"
  by pat_completeness auto
termination
  by (relation "measure id") auto

declare utoa.simps [simp del]

definition Itoa :: "int \<Rightarrow> string" where
  "Itoa i = (if i < 0 then CHR ''-'' # utoa (nat (- i)) else utoa (nat i))"

section \<open>An instance of the library: ASCII strings, IPv4 addresses\<close>

text \<open>
  \<open>golib\<close> agrees with Go on strings of ASCII bytes and on dotted-quad IPv4
  addresses and prefixes: \<^verbatim>\<open>TrimSpace\<close> strips the six ASCII white-space bytes,
  \<^verbatim>\<open>ToLower\<close> maps \<^verbatim>\<open>A-Z\<close> to \<^verbatim>\<open>a-z\<close>, \<^verbatim>\<open>ParseIP\<close> and \<^verbatim>\<open>ParseCIDR\<close> read four
  decimal octets (no leading zero, at most 255) and a prefix length of 0 to 32, and
  \<^verbatim>\<open>SplitHostPort\<close> follows \<^verbatim>\<open>net.SplitHostPort\<close> branch by branch. An address is a
  32-bit word; a network is its masked address with the prefix length.
\<close>

definition asciiSpace :: "char \<Rightarrow> bool" where
  "asciiSpace c = (c \<in> set [CHR 0x09, CHR 0x0A, CHR 0x0B, CHR 0x0C, CHR 0x0D, CHR 0x20])"

definition ascii_TrimSpace :: "string \<Rightarrow> string" where
  "ascii_TrimSpace s = rev (dropWhile asciiSpace (rev (dropWhile asciiSpace s)))"

definition ascii_lower :: "char \<Rightarrow> char" where
  "ascii_lower c =
     (case map_of (zip ''ABCDEFGHIJKLMNOPQRSTUVWXYZ'' ''abcdefghijklmnopqrstuvwxyz'') c of
        None \<Rightarrow> c | Some d \<Rightarrow> d)"

definition ascii_ToLower :: "string \<Rightarrow> string" where
  "ascii_ToLower s = map ascii_lower s"

fun IndexByte :: "string \<Rightarrow> char \<Rightarrow> nat option" where
  "IndexByte [] c = None"
| "IndexByte (x # xs) c = (if x = c then Some 0 else map_option Suc (IndexByte xs c))"

definition LastIndexByte :: "string \<Rightarrow> char \<Rightarrow> nat option" where
  "LastIndexByte s c = map_option (\<lambda>i. length s - 1 - i) (IndexByte (rev s) c)"

definition checkBrackets ::
  "string \<Rightarrow> string \<Rightarrow> nat \<Rightarrow> nat \<Rightarrow> nat \<Rightarrow> AddrError + string \<times> string" where
  "checkBrackets hostport host j k i =
     (if IndexByte (drop j hostport) (CHR ''['') \<noteq> None then Inl UnexpectedOpen
      else if IndexByte (drop k hostport) (CHR '']'') \<noteq> None then Inl UnexpectedClose
      else Inr (host, drop (i + 1) hostport))"

definition go_SplitHostPort :: "string \<Rightarrow> AddrError + string \<times> string" where
  "go_SplitHostPort hostport =
     (case LastIndexByte hostport (CHR '':'') of
        None \<Rightarrow> Inl MissingPort
      | Some i \<Rightarrow>
          if hostport ! 0 = CHR ''['' then
            (case IndexByte hostport (CHR '']'') of
               None \<Rightarrow> Inl MissingBracket
             | Some e \<Rightarrow>
                 if e + 1 = length hostport then Inl MissingPort
                 else if e + 1 = i then
                   checkBrackets hostport (take (e - 1) (drop 1 hostport)) 1 (e + 1) i
                 else if hostport ! (e + 1) = CHR '':'' then Inl TooManyColons
                 else Inl MissingPort)
          else
            (let host = take i hostport in
             if IndexByte host (CHR '':'') \<noteq> None then Inl TooManyColons
             else checkBrackets hostport host 0 0 i))"

definition isDigit :: "char \<Rightarrow> bool" where
  "isDigit c = (c \<in> set ''0123456789'')"

definition decimal :: "string \<Rightarrow> nat" where
  "decimal s = foldl (\<lambda>n c. n * 10 + (of_char c - 48)) 0 s"

definition parseOctet :: "string \<Rightarrow> nat option" where
  "parseOctet s =
     (if s = [] \<or> \<not> list_all isDigit s then None
      else if length s > 1 \<and> hd s = CHR ''0'' then None
      else if length s > 3 \<or> decimal s > 255 then None
      else Some (decimal s))"

definition ipv4_ParseIP :: "string \<Rightarrow> 32 word option" where
  "ipv4_ParseIP s =
     (case map parseOctet (Split s (CHR ''.'')) of
        [Some a, Some b, Some c, Some d] \<Rightarrow>
          Some (word_of_nat (((a * 256 + b) * 256 + c) * 256 + d))
      | _ \<Rightarrow> None)"

definition ipv4_ParseCIDR :: "string \<Rightarrow> (32 word \<times> nat) option" where
  "ipv4_ParseCIDR s =
     (case IndexByte s (CHR ''/'') of
        None \<Rightarrow> None
      | Some i \<Rightarrow>
          (let addr = take i s; mask = drop (i + 1) s in
           case ipv4_ParseIP addr of
             None \<Rightarrow> None
           | Some ip \<Rightarrow>
               if mask = [] \<or> \<not> list_all isDigit mask \<or> decimal mask > 32 then None
               else (let n = decimal mask
                     in Some (push_bit (32 - n) (drop_bit (32 - n) ip), n))))"

definition ipv4_Contains :: "32 word \<times> nat \<Rightarrow> 32 word \<Rightarrow> bool" where
  "ipv4_Contains ipNet ip =
     (case ipNet of (base, n) \<Rightarrow> push_bit (32 - n) (drop_bit (32 - n) ip) = base)"

definition golib :: "(32 word, 32 word \<times> nat) library" where
  "golib = \<lparr>TrimSpace = ascii_TrimSpace, ToLower = ascii_ToLower,
             SplitHostPort = go_SplitHostPort, ParseIP = ipv4_ParseIP,
             ParseCIDR = ipv4_ParseCIDR, Contains = ipv4_Contains\<rparr>"

section \<open>Requests\<close>

text \<open>
  The part of \<^verbatim>\<open>*http.Request\<close> that the gateway reads. \<open>Header\<close> is Go's
  \<^verbatim>\<open>map[string][]string\<close>, indexed by header name. \<open>Form\<close> is what
  \<^verbatim>\<open>r.ParseMultipartForm\<close> followed by \<^verbatim>\<open>r.FormFile("image")\<close> yields on the body,
  and \<open>Body\<close> what \<^verbatim>\<open>json.NewDecoder(r.Body).Decode(&req)\<close> yields.
\<close>

datatype form =
    ParseFailed string
  | NoImageFile
  | ImageFile string int

record SignedUrlRequest =
  Filename :: string
  ContentType :: string

record Request =
  Method :: string
  Path :: string
  Host :: string
  RemoteAddr :: string
  Header :: "string \<rightharpoonup> string list"
  Form :: form
  Body :: "SignedUrlRequest option"

text \<open>\<^verbatim>\<open>Header.Get\<close>: the first value of the header, the empty string when there is none.\<close>

definition Header_Get :: "(string \<rightharpoonup> string list) \<Rightarrow> string \<Rightarrow> string" where
  "Header_Get h key = (case h key of None \<Rightarrow> [] | Some [] \<Rightarrow> [] | Some (v # _) \<Rightarrow> v)"

section \<open>Client identity (middleware.go)\<close>

definition getClientIP :: "('ip, 'net) library \<Rightarrow> Request \<Rightarrow> string" where
  "getClientIP L r =
     (let cfIP = Header_Get (Header r) ''CF-Connecting-IP'' in
      if cfIP \<noteq> [] then cfIP
      else let realIP = Header_Get (Header r) ''X-Real-IP'' in
      if realIP \<noteq> [] then realIP
      else let forwarded = Header_Get (Header r) ''X-Forwarded-For'' in
      if forwarded \<noteq> [] then
        (let ips = Split forwarded (CHR '','') in TrimSpace L (ips ! 0))
      else (case SplitHostPort L (RemoteAddr r) of
              Inl err \<Rightarrow> RemoteAddr r
            | Inr (ip, port) \<Rightarrow> ip))"

section \<open>The IP allowlist (middleware.go)\<close>

text \<open>The \<^verbatim>\<open>for ... range allowedIPs\<close> loop of \<^verbatim>\<open>isIPAllowed\<close>.\<close>

fun isIPAllowed_loop :: "('ip, 'net) library \<Rightarrow> string \<Rightarrow> 'ip \<Rightarrow> string list \<Rightarrow> bool" where
  "isIPAllowed_loop L clientIP parsedClientIP [] = False"
| "isIPAllowed_loop L clientIP parsedClientIP (allowedIP # rest) =
     (if ContainsSlash allowedIP then
        (case ParseCIDR L allowedIP of
           None \<Rightarrow> isIPAllowed_loop L clientIP parsedClientIP rest
         | Some ipNet \<Rightarrow>
             if Contains L ipNet parsedClientIP then True
             else isIPAllowed_loop L clientIP parsedClientIP rest)
      else if clientIP = allowedIP then True
      else isIPAllowed_loop L clientIP parsedClientIP rest)"

definition isIPAllowed :: "('ip, 'net) library \<Rightarrow> string \<Rightarrow> string list \<Rightarrow> bool" where
  "isIPAllowed L clientIP allowedIPs =
     (case ParseIP L clientIP of
        None \<Rightarrow> False
      | Some parsedClientIP \<Rightarrow> isIPAllowed_loop L clientIP parsedClientIP allowedIPs)"

section \<open>Allowed origins (middleware.go)\<close>

fun isOriginAllowed_loop :: "string \<Rightarrow> string list \<Rightarrow> bool" where
  "isOriginAllowed_loop origin [] = False"
| "isOriginAllowed_loop origin (allowed # rest) =
     (if origin = allowed then True else isOriginAllowed_loop origin rest)"

definition isOriginAllowed :: "string \<Rightarrow> string list \<Rightarrow> bool" where
  "isOriginAllowed origin allowedOrigins =
     (if length allowedOrigins = 0
         \<or> (length allowedOrigins = 1 \<and> allowedOrigins ! 0 = ''*'')
      then True
      else isOriginAllowed_loop origin allowedOrigins)"

section \<open>Image file types (handlers.go)\<close>

definition validExtensions :: "string list" where
  "validExtensions = [''.jpg'', ''.jpeg'', ''.png'', ''.gif'', ''.webp'', ''.bmp'', ''.svg'']"

fun isValidImageType_loop :: "string \<Rightarrow> string list \<Rightarrow> bool" where
  "isValidImageType_loop filename [] = False"
| "isValidImageType_loop filename (ext # rest) =
     (if HasSuffix filename ext then True else isValidImageType_loop filename rest)"

definition isValidImageType :: "('ip, 'net) library \<Rightarrow> string \<Rightarrow> bool" where
  "isValidImageType L filename =
     (let filename = ToLower L filename in isValidImageType_loop filename validExtensions)"

section \<open>Response writers\<close>

text \<open>
  The server's own response writer: the header map, the status line once it is written
  (\<^verbatim>\<open>WriteHeader\<close> has an effect the first time only, and none on a hijacked
  connection), the values written to the body, and the connection underneath.
  \<open>transport\<close> says what \<^verbatim>\<open>w.(http.Hijacker)\<close> and \<^verbatim>\<open>hj.Hijack()\<close> would answer.
\<close>

datatype transport =
    NotHijacker
  | HijackError
  | Hijackable

record UploadResponse =
  Success :: bool
  URL :: string
  Message :: string
  Error :: string

datatype payload =
    UploadJSON UploadResponse
  | HealthJSON string string
  | Text string

record response =
  headers :: "string \<rightharpoonup> string"
  status :: "int option"
  body :: "payload list"
  transport :: transport
  hijacked :: bool
  closed :: bool

text \<open>
  An \<^verbatim>\<open>http.ResponseWriter\<close> is the server's writer or the metrics wrapper
  \<^verbatim>\<open>&responseWriter{w, statusCode}\<close> around another writer (metrics.go).
\<close>

datatype ResponseWriter =
    Response response
  | responseWriter (ResponseWriter: ResponseWriter) (statusCode: int)

definition newResponseWriter :: "ResponseWriter \<Rightarrow> ResponseWriter" where
  "newResponseWriter w = responseWriter w 200"

text \<open>
  \<^verbatim>\<open>(*responseWriter).WriteHeader\<close> stores the code and passes it on. The wrapper
  declares no other method: \<^verbatim>\<open>Header\<close> and \<^verbatim>\<open>Write\<close> are those of the embedded
  writer, and it has no \<^verbatim>\<open>Hijack\<close>.
\<close>

fun WriteHeader :: "int \<Rightarrow> ResponseWriter \<Rightarrow> ResponseWriter" where
  "WriteHeader code (Response r) =
     Response (if hijacked r \<or> status r \<noteq> None then r else r\<lparr>status := Some code\<rparr>)"
| "WriteHeader code (responseWriter w sc) = responseWriter (WriteHeader code w) code"

fun Header_Set :: "string \<Rightarrow> string \<Rightarrow> ResponseWriter \<Rightarrow> ResponseWriter" where
  "Header_Set key v (Response r) = Response (r\<lparr>headers := (headers r)(key \<mapsto> v)\<rparr>)"
| "Header_Set key v (responseWriter w sc) = responseWriter (Header_Set key v w) sc"

fun Header_Del :: "string \<Rightarrow> ResponseWriter \<Rightarrow> ResponseWriter" where
  "Header_Del key (Response r) = Response (r\<lparr>headers := (headers r)(key := None)\<rparr>)"
| "Header_Del key (responseWriter w sc) = responseWriter (Header_Del key w) sc"

fun Write :: "payload \<Rightarrow> ResponseWriter \<Rightarrow> ResponseWriter" where
  "Write p (Response r) =
     Response (if hijacked r then r
               else r\<lparr>status := (case status r of None \<Rightarrow> Some 200 | Some c \<Rightarrow> Some c),
                      body := body r @ [p]\<rparr>)"
| "Write p (responseWriter w sc) = responseWriter (Write p w) sc"

text \<open>
  \<^verbatim>\<open>if hj, ok := w.(http.Hijacker); ok { if conn, _, err := hj.Hijack(); err == nil {
  conn.Close(); return } }\<close>: the writer with its connection closed, or \<open>None\<close> when
  the assertion or the hijack fails.
\<close>

fun hijackAndClose :: "ResponseWriter \<Rightarrow> ResponseWriter option" where
  "hijackAndClose (Response r) =
     (if transport r = Hijackable \<and> \<not> hijacked r
      then Some (Response (r\<lparr>hijacked := True, closed := True\<rparr>))
      else None)"
| "hijackAndClose (responseWriter w sc) = None"

text \<open>The server's writer at the bottom of a stack of wrappers: what the client sees.\<close>

fun sent :: "ResponseWriter \<Rightarrow> response" where
  "sent (Response r) = r"
| "sent (responseWriter w sc) = sent w"

definition newResponse :: "transport \<Rightarrow> response" where
  "newResponse t = \<lparr>headers = Map.empty, status = None, body = [], transport = t,
                    hijacked = False, closed = False\<rparr>"

section \<open>Process state and handlers\<close>

text \<open>
  The three Prometheus vectors of metrics.go, each a count per label tuple (for the
  histogram, the number of observations: the durations are wall-clock time), and the
  calls made to the storage collaborator, oldest first.
\<close>

datatype storage_call =
    UploadImageCall string string int
  | SignedURLCall string string string

record state =
  httpRequestsTotal :: "string \<times> string \<times> string \<times> string \<times> string \<Rightarrow> nat"
  httpRequestDuration :: "string \<times> string \<Rightarrow> nat"
  signedURLCreatedTotal :: "string \<times> string \<Rightarrow> nat"
  storage :: "storage_call list"

type_synonym Handler = "ResponseWriter \<Rightarrow> Request \<Rightarrow> state \<Rightarrow> ResponseWriter \<times> state"

section \<open>Authentication and CORS middleware (middleware.go)\<close>

text \<open>
  The lines that \<^verbatim>\<open>AuthMiddleware\<close> writes to the process log are left out: no
  response and no later request depends on them.
\<close>

text \<open>The denial block that \<^verbatim>\<open>AuthMiddleware\<close> has twice, once for each gate.\<close>

definition stealth :: "ResponseWriter \<Rightarrow> ResponseWriter" where
  "stealth w = (case hijackAndClose w of Some w' \<Rightarrow> w' | None \<Rightarrow> WriteHeader 404 w)"

definition AuthMiddleware ::
  "('ip, 'net) library \<Rightarrow> string \<Rightarrow> string list \<Rightarrow> Handler \<Rightarrow> Handler" where
  "AuthMiddleware L apiKey allowedIPs next w r st =
     (let providedKey = Header_Get (Header r) ''X-API-Key'' in
      if providedKey = [] \<or> providedKey \<noteq> apiKey then (stealth w, st)
      else if length allowedIPs > 0 then
        (let clientIP = getClientIP L r in
         if \<not> isIPAllowed L clientIP allowedIPs then (stealth w, st)
         else next w r st)
      else next w r st)"

definition CORSMiddleware :: "string list \<Rightarrow> Handler \<Rightarrow> Handler" where
  "CORSMiddleware allowedOrigins next w r st =
     (let origin = Header_Get (Header r) ''Origin'';
          w = (if isOriginAllowed origin allowedOrigins
               then Header_Set ''Access-Control-Allow-Origin'' origin w else w);
          w = Header_Set ''Access-Control-Allow-Methods'' ''POST, GET, OPTIONS'' w;
          w = Header_Set ''Access-Control-Allow-Headers'' ''Content-Type, X-API-Key'' w;
          w = Header_Set ''Access-Control-Max-Age'' ''3600'' w
      in if Method r = ''OPTIONS'' then (WriteHeader 204 w, st)
         else next w r st)"

section \<open>Metrics middleware (metrics.go)\<close>

definition Inc :: "'k \<Rightarrow> ('k \<Rightarrow> nat) \<Rightarrow> ('k \<Rightarrow> nat)" where
  "Inc k c = c(k := c k + 1)"

definition MetricsMiddleware :: "('ip, 'net) library \<Rightarrow> Handler \<Rightarrow> Handler" where
  "MetricsMiddleware L next w r st =
     (if Path r = ''/metrics'' then next w r st
      else
        (let hostname = Host r;
             clientIP = getClientIP L r;
             wrapped = newResponseWriter w;
             (wrapped, st) = next wrapped r st;
             st = st\<lparr>httpRequestsTotal :=
                       Inc (Method r, Path r, Itoa (statusCode wrapped), hostname, clientIP)
                         (httpRequestsTotal st)\<rparr>;
             st = st\<lparr>httpRequestDuration :=
                       Inc (Method r, Path r) (httpRequestDuration st)\<rparr>
         in (ResponseWriter wrapped, st)))"

definition IncrementSignedURLCounter :: "string \<Rightarrow> string \<Rightarrow> state \<Rightarrow> state" where
  "IncrementSignedURLCounter hostname clientIP st =
     st\<lparr>signedURLCreatedTotal := Inc (hostname, clientIP) (signedURLCreatedTotal st)\<rparr>"

section \<open>Handlers (handlers.go)\<close>

text \<open>
  The storage collaborator of gcs.go talks to the cloud; here it is its bucket name and
  what its two operations answer (\<open>Inl\<close> the error text, \<open>Inr\<close> the URL). \<open>Config\<close>
  has the fields of config.go that the gateway reads while serving.
\<close>

record GCSClient =
  bucketName :: string
  UploadImage :: "string \<Rightarrow> int \<Rightarrow> string + string"
  GenerateV4PutObjectSignedURL :: "string \<Rightarrow> string \<Rightarrow> string + string"

record Config =
  MaxFileSize :: int
  APIKey1 :: string
  AllowedIPs :: "string list"
  AllowedOrigins :: "string list"

text \<open>
  config.go: \<^verbatim>\<open>getEnv\<close>, and the allowed origins as \<^verbatim>\<open>LoadConfig\<close> reads them from
  \<^verbatim>\<open>ALLOWED_ORIGINS\<close> (split at commas, each entry trimmed). \<open>environ\<close> is
  \<^verbatim>\<open>os.Getenv\<close>.
\<close>

definition getEnv :: "(string \<Rightarrow> string) \<Rightarrow> string \<Rightarrow> string \<Rightarrow> string" where
  "getEnv environ key defaultValue =
     (let v = environ key in if v = [] then defaultValue else v)"

definition loadAllowedOrigins :: "('ip, 'net) library \<Rightarrow> (string \<Rightarrow> string) \<Rightarrow> string list" where
  "loadAllowedOrigins L environ =
     (let allowedOriginsStr = getEnv environ ''ALLOWED_ORIGINS'' ''*'';
          allowedOrigins = Split allowedOriginsStr (CHR '','')
      in map (TrimSpace L) allowedOrigins)"

text \<open>Go's integer division truncates towards zero.\<close>

definition quo :: "int \<Rightarrow> int \<Rightarrow> int" where
  "quo a b = sgn a * sgn b * (\<bar>a\<bar> div \<bar>b\<bar>)"

definition failure :: "string \<Rightarrow> UploadResponse" where
  "failure msg = \<lparr>Success = False, URL = [], Message = [], Error = msg\<rparr>"

text \<open>\<^verbatim>\<open>w.WriteHeader(code)\<close> followed by \<^verbatim>\<open>json.NewEncoder(w).Encode(v)\<close>.\<close>

definition respond :: "int \<Rightarrow> UploadResponse \<Rightarrow> ResponseWriter \<Rightarrow> ResponseWriter" where
  "respond code v w = Write (UploadJSON v) (WriteHeader code w)"

definition HandleHealth :: Handler where
  "HandleHealth w r st =
     (let w = Header_Set ''Content-Type'' ''application/json'' w
      in (Write (HealthJSON ''healthy'' ''GCS Image Upload Service is running'') w, st))"

definition HandleUpload :: "('ip, 'net) library \<Rightarrow> GCSClient \<Rightarrow> Config \<Rightarrow> Handler" where
  "HandleUpload L gcsClient config w r st =
     (let w = Header_Set ''Content-Type'' ''application/json'' w in
      if Method r \<noteq> ''POST'' then
        (respond 405 (failure ''Method not allowed. Use POST.'') w, st)
      else case Form r of
        ParseFailed err \<Rightarrow>
          (respond 400 (failure (''Failed to parse form: '' @ err)) w, st)
      | NoImageFile \<Rightarrow>
          (respond 400
             (failure ''No image file provided. Use 'image' as the form field name.'') w, st)
      | ImageFile filename fsize \<Rightarrow>
          if fsize > MaxFileSize config then
            (respond 400
               (failure (''File too large. Max size: ''
                         @ Itoa (quo (MaxFileSize config) (1024 * 1024)) @ '' MB'')) w, st)
          else if \<not> isValidImageType L filename then
            (respond 400
               (failure ''Invalid file type. Allowed: jpg, jpeg, png, gif, webp, bmp, svg'')
               w, st)
          else
            (let st = st\<lparr>storage :=
                        storage st @ [UploadImageCall (bucketName gcsClient) filename fsize]\<rparr>
             in case UploadImage gcsClient filename fsize of
                  Inl err \<Rightarrow> (respond 500 (failure (''Failed to upload image: '' @ err)) w, st)
                | Inr url \<Rightarrow>
                    (respond 200
                       \<lparr>Success = True, URL = url,
                        Message = ''Image uploaded successfully'', Error = []\<rparr> w, st)))"

definition HandleGenerateSignedUrl :: "('ip, 'net) library \<Rightarrow> GCSClient \<Rightarrow> Handler" where
  "HandleGenerateSignedUrl L gcsClient w r st =
     (let w = Header_Set ''Content-Type'' ''application/json'' w in
      if Method r \<noteq> ''POST'' then
        (respond 405 (failure ''Method not allowed. Use POST.'') w, st)
      else case Body r of
        None \<Rightarrow> (respond 400 (failure ''Invalid request body'') w, st)
      | Some req \<Rightarrow>
          if Filename req = [] \<or> ContentType req = [] then
            (respond 400 (failure ''Filename and ContentType are required'') w, st)
          else if \<not> isValidImageType L (Filename req) then
            (respond 400 (failure ''Invalid file type'') w, st)
          else
            (let st = st\<lparr>storage :=
                        storage st
                        @ [SignedURLCall (bucketName gcsClient) (Filename req) (ContentType req)]\<rparr>
             in case GenerateV4PutObjectSignedURL gcsClient (Filename req) (ContentType req) of
                  Inl err \<Rightarrow>
                    (respond 500 (failure (''Failed to generate signed URL: '' @ err)) w, st)
                | Inr url \<Rightarrow>
                    (let hostname = Host r;
                         clientIP = getClientIP L r;
                         st = IncrementSignedURLCounter hostname clientIP st
                     in (respond 200
                           \<lparr>Success = True, URL = url,
                            Message = ''Signed URL generated successfully'', Error = []\<rparr> w,
                         st))))"

section \<open>Routing and composition (main.go)\<close>

text \<open>
  \<^verbatim>\<open>http.ServeMux\<close> for patterns without a trailing slash: the handler registered for
  exactly the request's path, and \<^verbatim>\<open>http.NotFound\<close> when there is none. Paths are
  compared as they arrive; the redirect that the multiplexer sends for a path that is
  not in canonical form (a doubled slash, a dot segment) is not part of the model.
\<close>

definition NotFound :: Handler where
  "NotFound w r st =
     (let w = Header_Del ''Content-Length'' w;
          w = Header_Set ''Content-Type'' ''text/plain; charset=utf-8'' w;
          w = Header_Set ''X-Content-Type-Options'' ''nosniff'' w;
          w = WriteHeader 404 w
      in (Write (Text (''404 page not found'' @ [CHR 0x0A])) w, st))"

definition ServeMux :: "(string \<times> Handler) list \<Rightarrow> Handler" where
  "ServeMux routes w r st =
     (case map_of routes (Path r) of
        None \<Rightarrow> NotFound w r st
      | Some h \<Rightarrow> h w r st)"

text \<open>
  What \<^verbatim>\<open>main\<close> builds before it registers routes: the two storage clients and the
  handler of the Prometheus client library for \<^verbatim>\<open>/metrics\<close>.
\<close>

record environment =
  darlingimagesClientProd :: GCSClient
  darlingimagesClientDev :: GCSClient
  promhttp_Handler :: Handler

definition authenticatedMux ::
  "('ip, 'net) library \<Rightarrow> environment \<Rightarrow> Config \<Rightarrow> (string \<times> Handler) list" where
  "authenticatedMux L env config =
     [(''/health'', HandleHealth), (''/metrics'', promhttp_Handler env)]
     @ (if APIKey1 config \<noteq> [] then
          [(''/upload'',
              AuthMiddleware L (APIKey1 config) (AllowedIPs config)
                (HandleUpload L (darlingimagesClientProd env) config)),
           (''/signedurl'',
              AuthMiddleware L (APIKey1 config) (AllowedIPs config)
                (HandleGenerateSignedUrl L (darlingimagesClientProd env))),
           (''/upload-dev'',
              AuthMiddleware L (APIKey1 config) (AllowedIPs config)
                (HandleUpload L (darlingimagesClientDev env) config)),
           (''/signedurl-dev'',
              AuthMiddleware L (APIKey1 config) (AllowedIPs config)
                (HandleGenerateSignedUrl L (darlingimagesClientDev env)))]
        else
          [(''/upload'', HandleUpload L (darlingimagesClientProd env) config)])"

definition handler :: "('ip, 'net) library \<Rightarrow> environment \<Rightarrow> Config \<Rightarrow> Handler" where
  "handler L env config =
     MetricsMiddleware L
       (CORSMiddleware (AllowedOrigins config) (ServeMux (authenticatedMux L env config)))"

text \<open>The server handles requests one after another, each on a writer of its own.\<close>

fun serveAll :: "Handler \<Rightarrow> (ResponseWriter \<times> Request) list \<Rightarrow> state \<Rightarrow> state" where
  "serveAll h [] st = st"
| "serveAll h ((w, r) # rest) st = serveAll h rest (snd (h w r st))"

section \<open>Notions of the specification\<close>

text \<open>A sequence of \<^verbatim>\<open>WriteHeader\<close> calls on one writer, in order.\<close>

fun WriteHeaders :: "int list \<Rightarrow> ResponseWriter \<Rightarrow> ResponseWriter" where
  "WriteHeaders [] w = w"
| "WriteHeaders (code # codes) w = WriteHeaders codes (WriteHeader code w)"

text \<open>
  When one allowlist entry matches a client: an entry with a slash by membership of the
  parsed address in the block it denotes, any other entry by equality of the strings.
\<close>

definition entryMatches :: "('ip, 'net) library \<Rightarrow> string \<Rightarrow> 'ip \<Rightarrow> string \<Rightarrow> bool" where
  "entryMatches L clientIP parsed entry =
     (if ContainsSlash entry
      then (case ParseCIDR L entry of None \<Rightarrow> False | Some ipNet \<Rightarrow> Contains L ipNet parsed)
      else clientIP = entry)"

text \<open>
  The API-key gate denies a request whose X-API-Key header is missing, empty, or not equal
  to the secret. The IP-allowlist gate denies a request when the allowlist is not empty
  and does not allow the resolved client address.
\<close>

definition keyDenied :: "string \<Rightarrow> Request \<Rightarrow> bool" where
  "keyDenied apiKey r =
     (Header r ''X-API-Key'' = None
      \<or> Header_Get (Header r) ''X-API-Key'' = []
      \<or> Header_Get (Header r) ''X-API-Key'' \<noteq> apiKey)"

definition ipDenied :: "('ip, 'net) library \<Rightarrow> string list \<Rightarrow> Request \<Rightarrow> bool" where
  "ipDenied L allowedIPs r =
     (allowedIPs \<noteq> [] \<and> \<not> isIPAllowed L (getClientIP L r) allowedIPs)"

text \<open>
  A writer on which nothing has been sent yet, and whether the type assertion
  \<^verbatim>\<open>w.(http.Hijacker)\<close> and the hijack succeed on it.
\<close>

definition untouched :: "ResponseWriter \<Rightarrow> bool" where
  "untouched w =
     (status (sent w) = None \<and> body (sent w) = []
      \<and> \<not> hijacked (sent w) \<and> \<not> closed (sent w))"

fun canHijack :: "ResponseWriter \<Rightarrow> bool" where
  "canHijack (Response r) = (transport r = Hijackable)"
| "canHijack (responseWriter w sc) = False"

text \<open>
  The allowed-origins policy in the specification's words: a single \<^verbatim>\<open>*\<close> entry allows
  every origin; otherwise an origin is allowed when it equals a configured origin.
\<close>

definition originMatches :: "string \<Rightarrow> string list \<Rightarrow> bool" where
  "originMatches origin allowedOrigins =
     (allowedOrigins = [''*''] \<or> origin \<in> set allowedOrigins)"

text \<open>
  A successful forwarded upload: a POST to \<^verbatim>\<open>/upload\<close> that both gates let through
  (when a secret is configured), with an image file of an allowed size and type that
  the production storage client accepts.
\<close>

definition uploadForwarded ::
  "('ip, 'net) library \<Rightarrow> environment \<Rightarrow> Config \<Rightarrow> Request \<Rightarrow> bool" where
  "uploadForwarded L env config r =
     (Method r = ''POST'' \<and> Path r = ''/upload''
      \<and> (APIKey1 config = []
          \<or> (\<not> keyDenied (APIKey1 config) r \<and> \<not> ipDenied L (AllowedIPs config) r))
      \<and> (case Form r of
            ImageFile filename fsize \<Rightarrow>
              fsize \<le> MaxFileSize config \<and> isValidImageType L filename
              \<and> (case UploadImage (darlingimagesClientProd env) filename fsize of
                    Inl err \<Rightarrow> False | Inr url \<Rightarrow> True)
          | _ \<Rightarrow> False))"

text \<open>A file name that ends in one of the seven image extensions.\<close>

definition hasImageExtension :: "string \<Rightarrow> bool" where
  "hasImageExtension s =
     (\<exists>ext \<in> set [''.jpg'', ''.jpeg'', ''.png'', ''.gif'', ''.webp'', ''.bmp'', ''.svg''].
        \<exists>stem. s = stem @ ext)"

section \<open>Sample inputs\<close>

definition request0 :: Request where
  "request0 = \<lparr>Method = ''POST'', Path = ''/upload'', Host = ''img.example.com'',
               RemoteAddr = ''203.0.113.5:51234'', Header = Map.empty,
               Form = NoImageFile, Body = None\<rparr>"

definition state0 :: state where
  "state0 = \<lparr>httpRequestsTotal = (\<lambda>k. 0), httpRequestDuration = (\<lambda>k. 0),
             signedURLCreatedTotal = (\<lambda>k. 0), storage = []\<rparr>"

definition pass :: Handler where
  "pass w r st = (Write (Text ''ok'') w, st)"

definition originRequest :: Request where
  "originRequest = request0\<lparr>Header := [''Origin'' \<mapsto> [''https://example.com'']]\<rparr>"

definition optionsRequest :: Request where
  "optionsRequest = request0\<lparr>Method := ''OPTIONS'', Path := ''/signedurl''\<rparr>"

definition keyedRequest :: Request where
  "keyedRequest = request0\<lparr>Header := [''X-API-Key'' \<mapsto> [''s3cret'']]\<rparr>"

definition environment0 :: environment where
  "environment0 =
     \<lparr>darlingimagesClientProd =
        \<lparr>bucketName = ''prod'', UploadImage = (\<lambda>filename fsize. Inr (''https://storage/prod/'' @ filename)),
         GenerateV4PutObjectSignedURL = (\<lambda>object contentType. Inr (''https://signed/prod/'' @ object))\<rparr>,
      darlingimagesClientDev =
        \<lparr>bucketName = ''dev'', UploadImage = (\<lambda>filename fsize. Inr (''https://storage/dev/'' @ filename)),
         GenerateV4PutObjectSignedURL = (\<lambda>object contentType. Inr (''https://signed/dev/'' @ object))\<rparr>,
      promhttp_Handler = pass\<rparr>"

definition config0 :: Config where
  "config0 = \<lparr>MaxFileSize = 10 * 1024 * 1024, APIKey1 = ''s3cret'',
              AllowedIPs = [''203.0.113.0/24''], AllowedOrigins = [''*'']\<rparr>"

definition uploadRequest :: Request where
  "uploadRequest = keyedRequest\<lparr>Form := ImageFile ''Cat.PNG'' 2048\<rparr>"

definition signRequest :: Request where
  "signRequest = request0\<lparr>Path := ''/signedurl'',
                   Body := Some \<lparr>Filename = ''cat.png'', ContentType = ''image/png''\<rparr>\<rparr>"

definition textRequest :: Request where
  "textRequest = request0\<lparr>Form := ImageFile ''notes.txt'' 12,
                   Body := Some \<lparr>Filename = ''notes.txt'', ContentType = ''text/plain''\<rparr>\<rparr>"

definition metricsRequest :: Request where
  "metricsRequest = request0\<lparr>Method := ''GET'', Path := ''/metrics''\<rparr>"

definition openConfig :: Config where
  "openConfig = config0\<lparr>APIKey1 := []\<rparr>"

section \<open>Library facts\<close>

lemma golib_sel [simp]:
  "TrimSpace golib = ascii_TrimSpace" "ToLower golib = ascii_ToLower"
  "SplitHostPort golib = go_SplitHostPort" "ParseIP golib = ipv4_ParseIP"
  "ParseCIDR golib = ipv4_ParseCIDR" "Contains golib = ipv4_Contains"
  by (simp_all add: golib_def)

lemma Split_nonempty: "Split s sep \<noteq> []"
  by (induction s) (auto split: list.splits)

lemma Split_first: "Split s sep ! 0 = takeWhile (\<lambda>c. c \<noteq> sep) s"
  by (induction s) (auto split: list.splits simp: Split_nonempty)

lemma ParseIP_203_0_113_5: "ipv4_ParseIP ''203.0.113.5'' = Some 0xCB007105"
  by (simp add: ipv4_ParseIP_def parseOctet_def isDigit_def decimal_def)

lemma ParseCIDR_203_0_113_0: "ipv4_ParseCIDR ''203.0.113.0/24'' = Some (0xCB007100, 24)"
  by (simp add: ipv4_ParseCIDR_def ipv4_ParseIP_def parseOctet_def isDigit_def decimal_def)

lemma ParseCIDR_198_51_100_0: "ipv4_ParseCIDR ''198.51.100.0/24'' = Some (0xC6336400, 24)"
  by (simp add: ipv4_ParseCIDR_def ipv4_ParseIP_def parseOctet_def isDigit_def decimal_def)

lemma ParseCIDR_malformed: "ipv4_ParseCIDR ''203.0.113.0/33'' = None"
  by (simp add: ipv4_ParseCIDR_def ipv4_ParseIP_def parseOctet_def isDigit_def decimal_def)

section \<open>The status code captured for metrics\<close>

lemma WriteHeaders_responseWriter:
  "WriteHeaders codes (responseWriter w sc) =
     responseWriter (WriteHeaders codes w) (if codes = [] then sc else last codes)"
  by (induction codes arbitrary: w sc) auto

text \<open>
  C8, as the specification states it, fails: after \<^verbatim>\<open>WriteHeader(404)\<close> and then
  \<^verbatim>\<open>WriteHeader(500)\<close> the wrapper reports 500, not the first code 404.
\<close>

theorem statusCode_first_counterexample:
  "statusCode (WriteHeaders [404, 500] (newResponseWriter (Response (newResponse Hijackable))))
     = 500
   \<and> hd [404, 500 :: int] = 404"
  by (simp add: newResponseWriter_def)

text \<open>
  C8, amended: \<^verbatim>\<open>(*responseWriter).WriteHeader\<close> assigns \<^verbatim>\<open>statusCode\<close> on every call,
  so for every sequence of calls on the wrapper the status code it reports is the last
  code of the sequence, and 200 when there was no call.
\<close>

theorem statusCode_last:
  "statusCode (WriteHeaders codes (newResponseWriter w))
     = (if codes = [] then 200 else last codes)"
  by (simp add: newResponseWriter_def WriteHeaders_responseWriter)

theorem statusCode_last_witness:
  "statusCode (WriteHeaders [404, 500] (newResponseWriter (Response (newResponse NotHijacker))))
     = 500"
  using statusCode_last [of "[404, 500]" "Response (newResponse NotHijacker)"] by simp

section \<open>Client identity\<close>

text \<open>
  C3: \<^verbatim>\<open>getClientIP\<close> returns the first of these that applies: the CF-Connecting-IP
  header when it is not empty; else the X-Real-IP header when it is not empty; else,
  when X-Forwarded-For is not empty, its first comma-separated entry (index 0 of the
  split always exists) with surrounding white space trimmed; else the host part of the
  peer address, or the peer address as it is when it cannot be split. With
  CF-Connecting-IP 1.1.1.1 and X-Forwarded-For 2.2.2.2 the result is 1.1.1.1. The
  function is a total function of the request alone.
\<close>

theorem getClientIP_priority:
  "(Header_Get (Header r) ''CF-Connecting-IP'' \<noteq> [] \<longrightarrow>
      getClientIP L r = Header_Get (Header r) ''CF-Connecting-IP'')
   \<and> (Header_Get (Header r) ''CF-Connecting-IP'' = []
        \<and> Header_Get (Header r) ''X-Real-IP'' \<noteq> [] \<longrightarrow>
      getClientIP L r = Header_Get (Header r) ''X-Real-IP'')
   \<and> (Header_Get (Header r) ''CF-Connecting-IP'' = []
        \<and> Header_Get (Header r) ''X-Real-IP'' = []
        \<and> Header_Get (Header r) ''X-Forwarded-For'' \<noteq> [] \<longrightarrow>
      0 < length (Split (Header_Get (Header r) ''X-Forwarded-For'') (CHR '',''))
      \<and> getClientIP L r =
          TrimSpace L (takeWhile (\<lambda>c. c \<noteq> CHR '','') (Header_Get (Header r) ''X-Forwarded-For'')))
   \<and> (Header_Get (Header r) ''CF-Connecting-IP'' = []
        \<and> Header_Get (Header r) ''X-Real-IP'' = []
        \<and> Header_Get (Header r) ''X-Forwarded-For'' = [] \<longrightarrow>
      getClientIP L r =
        (case SplitHostPort L (RemoteAddr r) of
           Inl err \<Rightarrow> RemoteAddr r
         | Inr (ip, port) \<Rightarrow> ip))
   \<and> getClientIP L
        (r\<lparr>Header := [''CF-Connecting-IP'' \<mapsto> [''1.1.1.1''],
                       ''X-Forwarded-For'' \<mapsto> [''2.2.2.2'']]\<rparr>) = ''1.1.1.1''"
  by (simp add: getClientIP_def Let_def Split_first Split_nonempty Header_Get_def)

theorem getClientIP_priority_witness:
  "getClientIP golib
     (request0\<lparr>Header := [''X-Real-IP'' \<mapsto> [''198.51.100.7''],
                          ''X-Forwarded-For'' \<mapsto> [''2.2.2.2'']]\<rparr>) = ''198.51.100.7''
   \<and> getClientIP golib
        (request0\<lparr>Header := [''X-Forwarded-For'' \<mapsto> ['' 2.2.2.2 , 3.3.3.3'']]\<rparr>) = ''2.2.2.2''
   \<and> getClientIP golib request0 = ''203.0.113.5''
   \<and> getClientIP golib (request0\<lparr>RemoteAddr := ''203.0.113.5''\<rparr>) = ''203.0.113.5''
   \<and> getClientIP golib (request0\<lparr>RemoteAddr := ''[2001:db8::1]:443''\<rparr>) = ''2001:db8::1''"
proof -
  let ?r1 = "request0\<lparr>Header := [''X-Real-IP'' \<mapsto> [''198.51.100.7''],
                          ''X-Forwarded-For'' \<mapsto> [''2.2.2.2'']]\<rparr>"
  let ?r2 = "request0\<lparr>Header := [''X-Forwarded-For'' \<mapsto> ['' 2.2.2.2 , 3.3.3.3'']]\<rparr>"
  let ?r4 = "request0\<lparr>RemoteAddr := ''203.0.113.5''\<rparr>"
  let ?r5 = "request0\<lparr>RemoteAddr := ''[2001:db8::1]:443''\<rparr>"
  have "getClientIP golib ?r1 = ''198.51.100.7''"
    using getClientIP_priority [of ?r1 golib] by (simp add: Header_Get_def request0_def)
  moreover have "getClientIP golib ?r2 = ''2.2.2.2''"
    using getClientIP_priority [of ?r2 golib]
    by (simp add: Header_Get_def request0_def ascii_TrimSpace_def asciiSpace_def)
  moreover have "getClientIP golib request0 = ''203.0.113.5''"
    using getClientIP_priority [of request0 golib]
    by (simp add: Header_Get_def request0_def go_SplitHostPort_def LastIndexByte_def
        checkBrackets_def)
  moreover have "getClientIP golib ?r4 = ''203.0.113.5''"
    using getClientIP_priority [of ?r4 golib]
    by (simp add: Header_Get_def request0_def go_SplitHostPort_def LastIndexByte_def
        checkBrackets_def)
  moreover have "getClientIP golib ?r5 = ''2001:db8::1''"
    using getClientIP_priority [of ?r5 golib]
    by (simp add: Header_Get_def request0_def go_SplitHostPort_def LastIndexByte_def
        checkBrackets_def)
  ultimately show ?thesis by blast
qed

section \<open>The IP allowlist decision\<close>

lemma isIPAllowed_loop_iff:
  "isIPAllowed_loop L clientIP p allowed \<longleftrightarrow> (\<exists>e \<in> set allowed. entryMatches L clientIP p e)"
  by (induction allowed) (auto simp: entryMatches_def split: option.splits)

lemma isIPAllowed_iff:
  "isIPAllowed L clientIP allowedIPs \<longleftrightarrow>
     (\<exists>p. ParseIP L clientIP = Some p \<and> (\<exists>e \<in> set allowedIPs. entryMatches L clientIP p e))"
  by (simp add: isIPAllowed_def isIPAllowed_loop_iff split: option.splits)

lemma isIPAllowed_skip:
  "ContainsSlash e \<Longrightarrow> ParseCIDR L e = None \<Longrightarrow>
     isIPAllowed L clientIP (xs @ e # ys) = isIPAllowed L clientIP (xs @ ys)"
  by (auto simp: isIPAllowed_iff entryMatches_def)

lemma isIPAllowed_example_allowed: "isIPAllowed golib ''203.0.113.5'' [''203.0.113.0/24'']"
  by (simp add: isIPAllowed_def ParseIP_203_0_113_5 ParseCIDR_203_0_113_0 ContainsSlash_def ipv4_Contains_def)
lemma isIPAllowed_example_denied: "\<not> isIPAllowed golib ''203.0.113.5'' [''198.51.100.0/24'']"
  by (simp add: isIPAllowed_def ParseIP_203_0_113_5 ParseCIDR_198_51_100_0 ContainsSlash_def ipv4_Contains_def)

text \<open>
  C4: \<^verbatim>\<open>isIPAllowed\<close> denies a client string that does not parse as an IP address;
  for one that parses, it allows exactly when some allowlist entry matches (an entry with
  a slash by membership of the parsed address in its CIDR block, any other entry by
  string equality). An entry with a slash that does not parse as a CIDR block is skipped:
  removing it from the allowlist changes no decision. With the IPv4 library,
  203.0.113.5 is allowed by 203.0.113.0/24 and denied by 198.51.100.0/24.
\<close>

theorem isIPAllowed_decision:
  "(ParseIP L clientIP = None \<longrightarrow> \<not> isIPAllowed L clientIP allowedIPs)
   \<and> (\<forall>parsed. ParseIP L clientIP = Some parsed \<longrightarrow>
        (isIPAllowed L clientIP allowedIPs
           \<longleftrightarrow> (\<exists>entry \<in> set allowedIPs. entryMatches L clientIP parsed entry)))
   \<and> (ContainsSlash entry \<and> ParseCIDR L entry = None \<longrightarrow>
        isIPAllowed L clientIP (before @ entry # after) = isIPAllowed L clientIP (before @ after))
   \<and> isIPAllowed golib ''203.0.113.5'' [''203.0.113.0/24'']
   \<and> \<not> isIPAllowed golib ''203.0.113.5'' [''198.51.100.0/24'']"
proof -
  have "ParseIP L clientIP = None \<longrightarrow> \<not> isIPAllowed L clientIP allowedIPs"
    by (simp add: isIPAllowed_iff)
  moreover have "\<forall>parsed. ParseIP L clientIP = Some parsed \<longrightarrow>
        (isIPAllowed L clientIP allowedIPs
           \<longleftrightarrow> (\<exists>entry \<in> set allowedIPs. entryMatches L clientIP parsed entry))"
    by (simp add: isIPAllowed_iff)
  moreover have "ContainsSlash entry \<and> ParseCIDR L entry = None \<longrightarrow>
        isIPAllowed L clientIP (before @ entry # after) = isIPAllowed L clientIP (before @ after)"
    by (simp add: isIPAllowed_skip)
  ultimately show ?thesis using isIPAllowed_example_allowed isIPAllowed_example_denied by blast
qed

theorem isIPAllowed_decision_witness:
  "ipv4_ParseIP ''203.0.113.5'' = Some 0xCB007105
   \<and> ContainsSlash ''203.0.113.0/33'' \<and> ipv4_ParseCIDR ''203.0.113.0/33'' = None
   \<and> isIPAllowed golib ''203.0.113.5'' [''203.0.113.0/33'', ''203.0.113.5'']
   \<and> entryMatches golib ''203.0.113.5'' 0xCB007105 ''203.0.113.5''"
proof -
  have p: "ParseIP golib ''203.0.113.5'' = Some 0xCB007105"
    by (simp add: ParseIP_203_0_113_5)
  have m: "entryMatches golib ''203.0.113.5'' 0xCB007105 ''203.0.113.5''"
    by (simp add: entryMatches_def ContainsSlash_def)
  have s: "ContainsSlash ''203.0.113.0/33''" by (simp add: ContainsSlash_def)
  have c: "ParseCIDR golib ''203.0.113.0/33'' = None" by (simp add: ParseCIDR_malformed)
  from isIPAllowed_decision [of golib "''203.0.113.5''" "[''203.0.113.5'']" "''203.0.113.0/33''" "[]" "[''203.0.113.5'']"]
  have a: "isIPAllowed golib ''203.0.113.5'' [''203.0.113.5''] \<longleftrightarrow>
            (\<exists>entry \<in> set [''203.0.113.5'']. entryMatches golib ''203.0.113.5'' 0xCB007105 entry)"
   and b: "isIPAllowed golib ''203.0.113.5'' ([] @ ''203.0.113.0/33'' # [''203.0.113.5''])
            = isIPAllowed golib ''203.0.113.5'' ([] @ [''203.0.113.5''])"
    using p s c by blast+
  from a m have "isIPAllowed golib ''203.0.113.5'' [''203.0.113.5'']" by simp
  with b have "isIPAllowed golib ''203.0.113.5'' [''203.0.113.0/33'', ''203.0.113.5'']" by simp
  with p m s c show ?thesis by (simp add: ParseIP_203_0_113_5 ParseCIDR_malformed)
qed

section \<open>What reaches the client\<close>

lemma sent_WriteHeader:
  "sent (WriteHeader code w) =
     (if hijacked (sent w) \<or> status (sent w) \<noteq> None then sent w
      else (sent w)\<lparr>status := Some code\<rparr>)"
  by (induction w) auto

lemma sent_Header_Set:
  "sent (Header_Set key v w) = (sent w)\<lparr>headers := (headers (sent w))(key \<mapsto> v)\<rparr>"
  by (induction w) (simp_all add: fun_upd_def)

lemma sent_Write:
  "sent (Write p w) =
     (if hijacked (sent w) then sent w
      else (sent w)\<lparr>status := (case status (sent w) of None \<Rightarrow> Some 200 | Some c \<Rightarrow> Some c),
                     body := body (sent w) @ [p]\<rparr>)"
  by (induction w) auto

lemma untouched_Header_Set: "untouched (Header_Set key v w) = untouched w"
  by (simp add: untouched_def sent_Header_Set)

lemma untouched_newResponseWriter: "untouched (newResponseWriter w) = untouched w"
  by (simp add: untouched_def newResponseWriter_def)

lemma untouched_newResponse: "untouched (Response (newResponse t))"
  by (simp add: untouched_def newResponse_def)

lemma sent_stealth:
  "untouched w \<Longrightarrow>
     sent (stealth w) =
       (if canHijack w then (sent w)\<lparr>hijacked := True, closed := True\<rparr>
        else (sent w)\<lparr>status := Some 404\<rparr>)"
  by (cases w) (auto simp: stealth_def untouched_def sent_WriteHeader)

lemma sent_pass: "sent (fst (pass w r st)) = sent (Write (Text ''ok'') w)"
  by (simp add: pass_def)

section \<open>Sample requests\<close>

lemma keyDenied_request0: "keyDenied ''s3cret'' request0"
  by (simp add: keyDenied_def request0_def)

lemma getClientIP_keyedRequest: "getClientIP golib keyedRequest = ''203.0.113.5''"
  by (simp add: getClientIP_def keyedRequest_def request0_def Header_Get_def
      go_SplitHostPort_def LastIndexByte_def checkBrackets_def)

lemma ipDenied_keyedRequest: "ipDenied golib [''198.51.100.0/24''] keyedRequest"
  by (simp add: ipDenied_def getClientIP_keyedRequest isIPAllowed_def ParseIP_203_0_113_5
      ParseCIDR_198_51_100_0 ContainsSlash_def ipv4_Contains_def)

lemma not_keyDenied_keyedRequest: "\<not> keyDenied ''s3cret'' keyedRequest"
  by (simp add: keyDenied_def keyedRequest_def Header_Get_def)

lemma Origin_originRequest: "Header_Get (Header originRequest) ''Origin'' = ''https://example.com''"
  by (simp add: originRequest_def Header_Get_def)

lemma Method_originRequest: "Method originRequest = ''POST''"
  by (simp add: originRequest_def request0_def)

section \<open>Denial by the gates\<close>

lemma AuthMiddleware_denied:
  "keyDenied apiKey r \<or> ipDenied L allowedIPs r \<Longrightarrow>
     AuthMiddleware L apiKey allowedIPs next w r st = (stealth w, st)"
  by (auto simp: AuthMiddleware_def keyDenied_def ipDenied_def Let_def Header_Get_def)

text \<open>
  The metrics wrapper has no \<^verbatim>\<open>Hijack\<close> method, so a denial behind it is always the
  404 answer.
\<close>

lemma stealth_newResponseWriter:
  "stealth (newResponseWriter w) = WriteHeader 404 (newResponseWriter w)"
  by (simp add: stealth_def newResponseWriter_def)

text \<open>
  The gate by itself: when the API-key gate or the IP-allowlist gate denies a request, and nothing has been
  sent on the writer yet, \<^verbatim>\<open>AuthMiddleware\<close> leaves the process state alone and writes
  no body; when the writer it was given exposes a hijack capability that succeeds, the
  connection is closed with no status line, and otherwise the status is 404 and the
  connection stays open. No other status and no body is ever produced.
\<close>

lemma AuthMiddleware_stealth:
  assumes "keyDenied apiKey r \<or> ipDenied L allowedIPs r" and "untouched w"
  shows "case AuthMiddleware L apiKey allowedIPs next w r st of
           (w', st') \<Rightarrow>
             st' = st \<and> body (sent w') = []
             \<and> (if canHijack w
                 then closed (sent w') \<and> status (sent w') = None
                 else \<not> closed (sent w') \<and> status (sent w') = Some 404)"
  using assms by (simp add: AuthMiddleware_denied sent_stealth) (simp add: untouched_def)

lemma AuthMiddleware_stealth_examples:
  "keyDenied ''s3cret'' request0
   \<and> untouched (Response (newResponse Hijackable))
   \<and> closed (sent (fst (AuthMiddleware golib ''s3cret'' [] pass
                          (Response (newResponse Hijackable)) request0 state0)))
   \<and> status (sent (fst (AuthMiddleware golib ''s3cret'' [] pass
                          (Response (newResponse Hijackable)) request0 state0))) = None
   \<and> status (sent (fst (AuthMiddleware golib ''s3cret'' [] pass
                          (newResponseWriter (Response (newResponse Hijackable)))
                          request0 state0))) = Some 404
   \<and> \<not> keyDenied ''s3cret'' keyedRequest
   \<and> ipDenied golib [''198.51.100.0/24''] keyedRequest
   \<and> status (sent (fst (AuthMiddleware golib ''s3cret'' [''198.51.100.0/24''] pass
                          (Response (newResponse HijackError)) keyedRequest state0)))
       = Some 404
   \<and> body (sent (fst (AuthMiddleware golib ''s3cret'' [''198.51.100.0/24''] pass
                          (Response (newResponse HijackError)) keyedRequest state0))) = []"
proof -
  have k: "keyDenied ''s3cret'' request0 \<or> ipDenied golib [] request0"
    by (simp add: keyDenied_request0)
  have i: "keyDenied ''s3cret'' keyedRequest \<or> ipDenied golib [''198.51.100.0/24''] keyedRequest"
    by (simp add: ipDenied_keyedRequest)
  have u: "untouched (Response (newResponse t))" for t
    by (rule untouched_newResponse)
  have u': "untouched (newResponseWriter (Response (newResponse t)))" for t
    by (simp add: untouched_newResponseWriter untouched_newResponse)
  from AuthMiddleware_stealth [OF k u, where ?t1 = Hijackable and ?next = pass and ?st = state0]
  have a: "closed (sent (fst (AuthMiddleware golib ''s3cret'' [] pass
                          (Response (newResponse Hijackable)) request0 state0)))"
    "status (sent (fst (AuthMiddleware golib ''s3cret'' [] pass
                          (Response (newResponse Hijackable)) request0 state0))) = None"
    by (simp_all add: case_prod_beta newResponse_def)
  from AuthMiddleware_stealth [OF k u', where ?t1 = Hijackable and ?next = pass and ?st = state0]
  have b: "status (sent (fst (AuthMiddleware golib ''s3cret'' [] pass
                          (newResponseWriter (Response (newResponse Hijackable)))
                          request0 state0))) = Some 404"
    by (simp add: case_prod_beta newResponseWriter_def)
  from AuthMiddleware_stealth [OF i u, where ?t1 = HijackError and ?next = pass and ?st = state0]
  have c: "status (sent (fst (AuthMiddleware golib ''s3cret'' [''198.51.100.0/24''] pass
                          (Response (newResponse HijackError)) keyedRequest state0)))
       = Some 404"
    "body (sent (fst (AuthMiddleware golib ''s3cret'' [''198.51.100.0/24''] pass
                          (Response (newResponse HijackError)) keyedRequest state0))) = []"
    by (simp_all add: case_prod_beta newResponse_def)
  show ?thesis
    using a b c keyDenied_request0 u not_keyDenied_keyedRequest ipDenied_keyedRequest
    by blast
qed

section \<open>Short circuits\<close>

lemma CORS_options:
  "Method r = ''OPTIONS'' \<Longrightarrow>
   CORSMiddleware allowedOrigins next w r st = CORSMiddleware allowedOrigins next' w r st"
  by (simp add: CORSMiddleware_def Let_def)

text \<open>
  C2: for a request that the API-key gate or the IP-allowlist gate denies, the result of
  \<^verbatim>\<open>AuthMiddleware\<close> is the same whatever the next handler is, and the process state
  is unchanged; for a request whose method is OPTIONS the same holds of
  \<^verbatim>\<open>CORSMiddleware\<close>. The next handler is never invoked.
\<close>

theorem denied_never_reaches_handler:
  "(keyDenied apiKey r \<or> ipDenied L allowedIPs r \<longrightarrow>
      AuthMiddleware L apiKey allowedIPs next w r st
        = AuthMiddleware L apiKey allowedIPs next' w r st
      \<and> snd (AuthMiddleware L apiKey allowedIPs next w r st) = st)
   \<and> (Method r = ''OPTIONS'' \<longrightarrow>
      CORSMiddleware allowedOrigins next w r st
        = CORSMiddleware allowedOrigins next' w r st
      \<and> snd (CORSMiddleware allowedOrigins next w r st) = st)"
  by (auto simp: AuthMiddleware_denied CORSMiddleware_def Let_def)

theorem denied_never_reaches_handler_witness:
  "keyDenied ''s3cret'' request0
   \<and> AuthMiddleware golib ''s3cret'' [] (HandleUpload golib (darlingimagesClientProd environment0) config0)
         (Response (newResponse NotHijacker)) request0 state0
       = AuthMiddleware golib ''s3cret'' [] pass (Response (newResponse NotHijacker)) request0 state0
   \<and> ipDenied golib [''198.51.100.0/24''] keyedRequest
   \<and> snd (AuthMiddleware golib ''s3cret'' [''198.51.100.0/24'']
             (HandleUpload golib (darlingimagesClientProd environment0) config0)
             (Response (newResponse NotHijacker)) keyedRequest state0) = state0
   \<and> Method optionsRequest = ''OPTIONS''
   \<and> CORSMiddleware [''*''] (HandleGenerateSignedUrl golib (darlingimagesClientProd environment0))
         (Response (newResponse NotHijacker)) optionsRequest state0
       = CORSMiddleware [''*''] pass (Response (newResponse NotHijacker)) optionsRequest state0"
proof -
  have m: "Method optionsRequest = ''OPTIONS''"
    by (simp add: optionsRequest_def)
  show ?thesis
    using denied_never_reaches_handler
      [where ?apiKey = "''s3cret''" and ?r = request0 and ?L = golib and ?allowedIPs = "[]"
         and ?next = "HandleUpload golib (darlingimagesClientProd environment0) config0"
         and ?w = "Response (newResponse NotHijacker)" and ?st = state0 and ?next' = pass
         and ?allowedOrigins = "[''*'']"]
      denied_never_reaches_handler
      [where ?apiKey = "''s3cret''" and ?r = keyedRequest and ?L = golib and ?allowedIPs = "[''198.51.100.0/24'']"
         and ?next = "HandleUpload golib (darlingimagesClientProd environment0) config0"
         and ?w = "Response (newResponse NotHijacker)" and ?st = state0 and ?next' = pass
         and ?allowedOrigins = "[''*'']"]
      denied_never_reaches_handler
      [where ?apiKey = "''s3cret''" and ?r = optionsRequest and ?L = golib and ?allowedIPs = "[]"
         and ?next = "HandleGenerateSignedUrl golib (darlingimagesClientProd environment0)"
         and ?w = "Response (newResponse NotHijacker)" and ?st = state0 and ?next' = pass
         and ?allowedOrigins = "[''*'']"]
      keyDenied_request0 ipDenied_keyedRequest m
    by blast
qed

section \<open>Preflight requests\<close>

lemma CORS_preflight:
  assumes "Method r = ''OPTIONS''" and "untouched w"
  shows "status (sent (fst (CORSMiddleware allowedOrigins next w r st))) = Some 204"
    and "body (sent (fst (CORSMiddleware allowedOrigins next w r st))) = []"
    and "headers (sent (fst (CORSMiddleware allowedOrigins next w r st)))
           ''Access-Control-Allow-Methods'' = Some ''POST, GET, OPTIONS''"
    and "headers (sent (fst (CORSMiddleware allowedOrigins next w r st)))
           ''Access-Control-Allow-Headers'' = Some ''Content-Type, X-API-Key''"
    and "headers (sent (fst (CORSMiddleware allowedOrigins next w r st)))
           ''Access-Control-Max-Age'' = Some ''3600''"
    and "snd (CORSMiddleware allowedOrigins next w r st) = st"
  using assms
  by (simp_all add: CORSMiddleware_def Let_def sent_WriteHeader sent_Header_Set untouched_def)

lemma handler_preflight:
  assumes "Method r = ''OPTIONS''"
  shows "handler L env config w r st = handler L env' config w r st"
  using assms
  by (simp add: handler_def MetricsMiddleware_def Let_def
      CORS_options [of r _ "ServeMux (authenticatedMux L env config)" _ _
                       "ServeMux (authenticatedMux L env' config)"])

lemma handler_preflight_response:
  assumes "Method r = ''OPTIONS''" and "untouched w"
  shows "status (sent (fst (handler L env config w r st))) = Some 204
         \<and> body (sent (fst (handler L env config w r st))) = []
         \<and> storage (snd (handler L env config w r st)) = storage st"
proof -
  let ?next = "ServeMux (authenticatedMux L env config)"
  have w: "untouched (newResponseWriter w)"
    using assms(2) by (simp add: untouched_newResponseWriter)
  obtain w1 st1 where
    c: "CORSMiddleware (AllowedOrigins config) ?next (newResponseWriter w) r st = (w1, st1)"
    by (cases "CORSMiddleware (AllowedOrigins config) ?next (newResponseWriter w) r st")
  have w1: "\<exists>u sc. w1 = responseWriter u sc"
    using c assms(1) by (auto simp: CORSMiddleware_def Let_def newResponseWriter_def)
  from CORS_preflight [OF assms(1) w, of "AllowedOrigins config" ?next st] c
  have f: "status (sent w1) = Some 204" "body (sent w1) = []" "st1 = st" by simp_all
  from w1 have s: "sent (ResponseWriter w1) = sent w1" by auto
  have "status (sent (fst (handler L env config w r st))) = Some 204"
    using CORS_preflight(1) [OF assms, of "AllowedOrigins config" ?next st] c f s
    by (simp add: handler_def MetricsMiddleware_def Let_def)
  moreover have "body (sent (fst (handler L env config w r st))) = []"
    using CORS_preflight(2) [OF assms, of "AllowedOrigins config" ?next st] c f s
    by (simp add: handler_def MetricsMiddleware_def Let_def)
  moreover have "storage (snd (handler L env config w r st)) = storage st"
    using CORS_preflight(6) [OF assms, of "AllowedOrigins config" ?next st] c f
    by (simp add: handler_def MetricsMiddleware_def Let_def)
  ultimately show ?thesis by blast
qed

text \<open>
  C5: for a request whose method is OPTIONS, on a writer on which nothing has been sent,
  \<^verbatim>\<open>CORSMiddleware\<close> answers 204 with an empty body and the fixed allow-methods,
  allow-headers and max-age headers, changes no process state, and gives the same result
  whatever comes after it. The composed server does so on every path: its response is 204
  with an empty body, whatever handlers are registered, and storage is not called.
\<close>

theorem preflight_answered:
  assumes "Method r = ''OPTIONS''" and "untouched w"
  shows "(case CORSMiddleware allowedOrigins next w r st of
            (w', st') \<Rightarrow>
              status (sent w') = Some 204 \<and> body (sent w') = []
              \<and> headers (sent w') ''Access-Control-Allow-Methods''
                  = Some ''POST, GET, OPTIONS''
              \<and> headers (sent w') ''Access-Control-Allow-Headers''
                  = Some ''Content-Type, X-API-Key''
              \<and> headers (sent w') ''Access-Control-Max-Age'' = Some ''3600''
              \<and> st' = st)
         \<and> CORSMiddleware allowedOrigins next w r st
             = CORSMiddleware allowedOrigins next' w r st
         \<and> handler L env config w r st = handler L env' config w r st
         \<and> status (sent (fst (handler L env config w r st))) = Some 204
         \<and> body (sent (fst (handler L env config w r st))) = []
         \<and> storage (snd (handler L env config w r st)) = storage st"
proof -
  have "case CORSMiddleware allowedOrigins next w r st of
           (w', st') \<Rightarrow>
             status (sent w') = Some 204 \<and> body (sent w') = []
             \<and> headers (sent w') ''Access-Control-Allow-Methods'' = Some ''POST, GET, OPTIONS''
             \<and> headers (sent w') ''Access-Control-Allow-Headers''
                 = Some ''Content-Type, X-API-Key''
             \<and> headers (sent w') ''Access-Control-Max-Age'' = Some ''3600''
             \<and> st' = st"
    using CORS_preflight [OF assms, of allowedOrigins "next" st]
    by (simp add: case_prod_beta)
  moreover have "CORSMiddleware allowedOrigins next w r st
                   = CORSMiddleware allowedOrigins next' w r st"
    using assms(1) by (rule CORS_options)
  moreover have "handler L env config w r st = handler L env' config w r st"
    using assms(1) by (rule handler_preflight)
  moreover note handler_preflight_response [OF assms, of L env config st]
  ultimately show ?thesis by blast
qed

theorem preflight_answered_witness:
  "Method optionsRequest = ''OPTIONS''
   \<and> untouched (Response (newResponse Hijackable))
   \<and> status (sent (fst (handler golib environment0 config0
                          (Response (newResponse Hijackable)) optionsRequest state0)))
       = Some 204
   \<and> body (sent (fst (handler golib environment0 config0
                          (Response (newResponse Hijackable)) optionsRequest state0))) = []
   \<and> status (sent (fst (CORSMiddleware [''*''] pass
                          (Response (newResponse Hijackable)) optionsRequest state0)))
       = Some 204"
proof -
  have m: "Method optionsRequest = ''OPTIONS''"
    by (simp add: optionsRequest_def)
  have u: "untouched (Response (newResponse Hijackable))"
    by (rule untouched_newResponse)
  from preflight_answered [OF m u, where ?allowedOrigins = "[''*'']" and ?next = pass
      and ?st = state0 and ?next' = pass and ?L = golib and ?env = environment0
      and ?config = config0 and ?env' = environment0]
  show ?thesis using m u by (simp add: case_prod_beta)
qed

section \<open>Origins\<close>

lemma isOriginAllowed_loop_iff: "isOriginAllowed_loop origin allowed \<longleftrightarrow> origin \<in> set allowed"
  by (induction allowed) auto

lemma single_wildcard:
  "(length allowedOrigins = 1 \<and> allowedOrigins ! 0 = ''*'') \<longleftrightarrow> allowedOrigins = [''*'']"
  by (cases allowedOrigins) auto

lemma isOriginAllowed_iff:
  "isOriginAllowed origin allowedOrigins
     \<longleftrightarrow> allowedOrigins = [] \<or> originMatches origin allowedOrigins"
  unfolding isOriginAllowed_def originMatches_def single_wildcard isOriginAllowed_loop_iff
  by auto

text \<open>
  \<^verbatim>\<open>LoadConfig\<close> never yields an empty list of allowed origins: splitting any string
  at commas gives at least one entry.
\<close>

lemma loadAllowedOrigins_nonempty: "loadAllowedOrigins L environ \<noteq> []"
  by (simp add: loadAllowedOrigins_def Let_def Split_nonempty)

text \<open>
  C6: for a request whose method is not OPTIONS and a list of allowed origins that is not
  empty (as every list that \<^verbatim>\<open>LoadConfig\<close> yields is), \<^verbatim>\<open>CORSMiddleware\<close> calls the
  next handler, on a writer that differs from the one it got in its headers only. The
  Access-Control-Allow-Origin header is the request's Origin value when the origin
  matches the policy (the list is the single entry \<^verbatim>\<open>*\<close>, or contains the Origin
  value); otherwise the header is left as it was (not set).
\<close>

theorem origin_reflected:
  assumes "Method r \<noteq> ''OPTIONS''" and "allowedOrigins \<noteq> []"
  shows "(\<exists>w'. CORSMiddleware allowedOrigins next w r st = next w' r st
            \<and> headers (sent w') ''Access-Control-Allow-Origin''
                = (if originMatches (Header_Get (Header r) ''Origin'') allowedOrigins
                   then Some (Header_Get (Header r) ''Origin'')
                   else headers (sent w) ''Access-Control-Allow-Origin'')
            \<and> sent w' = (sent w)\<lparr>headers := headers (sent w')\<rparr>)
         \<and> loadAllowedOrigins L environ \<noteq> []"
proof -
  let ?origin = "Header_Get (Header r) ''Origin''"
  let ?w0 = "if isOriginAllowed ?origin allowedOrigins
             then Header_Set ''Access-Control-Allow-Origin'' ?origin w else w"
  let ?w' = "Header_Set ''Access-Control-Max-Age'' ''3600''
               (Header_Set ''Access-Control-Allow-Headers'' ''Content-Type, X-API-Key''
                  (Header_Set ''Access-Control-Allow-Methods'' ''POST, GET, OPTIONS'' ?w0))"
  have "CORSMiddleware allowedOrigins next w r st = next ?w' r st"
    using assms(1) by (simp add: CORSMiddleware_def Let_def)
  moreover have "headers (sent ?w') ''Access-Control-Allow-Origin''
               = (if originMatches ?origin allowedOrigins
                  then Some ?origin
                  else headers (sent w) ''Access-Control-Allow-Origin'')"
    using assms(2) by (simp add: isOriginAllowed_iff sent_Header_Set)
  moreover have "sent ?w' = (sent w)\<lparr>headers := headers (sent ?w')\<rparr>"
    by (simp add: sent_Header_Set)
  ultimately show ?thesis using loadAllowedOrigins_nonempty by blast
qed

theorem origin_reflected_witness:
  "Method originRequest \<noteq> ''OPTIONS''
   \<and> headers (sent (fst (CORSMiddleware [''https://example.com''] pass
                         (Response (newResponse NotHijacker)) originRequest state0)))
     ''Access-Control-Allow-Origin'' = Some ''https://example.com''
   \<and> headers (sent (fst (CORSMiddleware [''https://other.com''] pass
                         (Response (newResponse NotHijacker)) originRequest state0)))
     ''Access-Control-Allow-Origin'' = None
   \<and> body (sent (fst (CORSMiddleware [''https://other.com''] pass
                         (Response (newResponse NotHijacker)) originRequest state0)))
       = [Text ''ok'']"
proof -
  let ?w = "Response (newResponse NotHijacker)"
  have m: "Method originRequest \<noteq> ''OPTIONS''" by (simp add: Method_originRequest)
  have n1: "[''https://example.com''] \<noteq> []" and n2: "[''https://other.com''] \<noteq> []"
    by simp_all
  have p: "headers (sent (fst (pass w' r st))) = headers (sent w')"
    "sent w' = (sent ?w)\<lparr>headers := headers (sent w')\<rparr>
       \<Longrightarrow> body (sent (fst (pass w' r st))) = [Text ''ok'']" for w' r st
  proof -
    show "headers (sent (fst (pass w' r st))) = headers (sent w')"
      by (simp add: sent_pass sent_Write)
    assume "sent w' = (sent ?w)\<lparr>headers := headers (sent w')\<rparr>"
    then have "hijacked (sent w') = False \<and> body (sent w') = []"
      by (metis (no_types) response.select_convs(3,5) response.surjective
          response.update_convs(1) newResponse_def sent.simps(1))
    then show "body (sent (fst (pass w' r st))) = [Text ''ok'']"
      by (simp add: sent_pass sent_Write)
  qed
  from origin_reflected [OF m n1, where ?next = pass and ?w = ?w and ?st = state0]
  obtain w1 where w1: "CORSMiddleware [''https://example.com''] pass ?w originRequest state0
                        = pass w1 originRequest state0"
    "headers (sent w1) ''Access-Control-Allow-Origin'' = Some ''https://example.com''"
    by (auto simp: originMatches_def Origin_originRequest)
  from origin_reflected [OF m n2, where ?next = pass and ?w = ?w and ?st = state0]
  obtain w2 where w2: "CORSMiddleware [''https://other.com''] pass ?w originRequest state0
                        = pass w2 originRequest state0"
    "headers (sent w2) ''Access-Control-Allow-Origin'' = None"
    "sent w2 = (sent ?w)\<lparr>headers := headers (sent w2)\<rparr>"
    by (auto simp: originMatches_def Origin_originRequest newResponse_def)
  show ?thesis using m w1 w2 p by simp
qed

section \<open>File types\<close>

lemma HasSuffix_iff: "HasSuffix s ext \<longleftrightarrow> (\<exists>stem. s = stem @ ext)"
proof
  assume "HasSuffix s ext"
  then have "s = take (length s - length ext) s @ ext"
    by (metis HasSuffix_def append_take_drop_id)
  then show "\<exists>stem. s = stem @ ext" ..
next
  assume "\<exists>stem. s = stem @ ext"
  then show "HasSuffix s ext" by (auto simp: HasSuffix_def)
qed

lemma isValidImageType_loop_iff:
  "isValidImageType_loop s exts \<longleftrightarrow> (\<exists>ext \<in> set exts. HasSuffix s ext)"
  by (induction exts) auto

lemma isValidImageType_iff: "isValidImageType L filename \<longleftrightarrow> hasImageExtension (ToLower L filename)"
  by (simp add: isValidImageType_def isValidImageType_loop_iff hasImageExtension_def
      validExtensions_def HasSuffix_iff Let_def)

lemma sent_respond:
  "untouched w \<Longrightarrow>
     sent (respond code v w) = (sent w)\<lparr>status := Some code, body := [UploadJSON v]\<rparr>"
  by (simp add: respond_def sent_Write sent_WriteHeader untouched_def)

lemma HandleUpload_invalid:
  assumes "Method r = ''POST''" and "\<not> isValidImageType L filename"
    and "Form r = ImageFile filename fsize"
  shows "HandleUpload L gcsClient config w r st
           = (respond 400
                (failure (if fsize > MaxFileSize config
                          then ''File too large. Max size: ''
                               @ Itoa (quo (MaxFileSize config) (1024 * 1024)) @ '' MB''
                          else ''Invalid file type. Allowed: jpg, jpeg, png, gif, webp, bmp, svg''))
                (Header_Set ''Content-Type'' ''application/json'' w), st)"
  using assms by (simp add: HandleUpload_def Let_def)

lemma HandleGenerateSignedUrl_invalid:
  assumes "Method r = ''POST''" and "\<not> isValidImageType L (Filename req)"
    and "Body r = Some req"
  shows "HandleGenerateSignedUrl L gcsClient w r st
           = (respond 400
                (failure (if Filename req = [] \<or> ContentType req = []
                          then ''Filename and ContentType are required''
                          else ''Invalid file type''))
                (Header_Set ''Content-Type'' ''application/json'' w), st)"
  using assms by (simp add: HandleGenerateSignedUrl_def Let_def)

lemma rejected:
  assumes "untouched w"
    and "h = (respond 400 (failure msg) (Header_Set ''Content-Type'' ''application/json'' w), st)"
    and "msg \<noteq> []"
  shows "case h of
           (w', st') \<Rightarrow>
             status (sent w') = Some 400
             \<and> (\<exists>msg. msg \<noteq> []
                  \<and> body (sent w')
                      = [UploadJSON \<lparr>Success = False, URL = [], Message = [], Error = msg\<rparr>])
             \<and> st' = st"
  using assms by (simp add: sent_respond untouched_Header_Set failure_def)

lemma notes_txt: "\<not> hasImageExtension (ToLower golib ''notes.txt'')"
proof -
  have "ascii_ToLower ''notes.txt'' = ''notes.txt''"
    by (simp add: ascii_ToLower_def ascii_lower_def)
  then have "\<not> isValidImageType golib ''notes.txt''"
    by (simp add: isValidImageType_def validExtensions_def HasSuffix_def)
  then show ?thesis by (simp add: isValidImageType_iff)
qed

text \<open>
  C10: for a POST request on a writer on which nothing has been sent, when the lowercased
  file name does not end in one of .jpg, .jpeg, .png, .gif, .webp, .bmp, .svg, the upload
  handler (the name being that of the uploaded file) and the signed-URL handler (the name
  being that of the decoded body) both answer 400 with one JSON value whose success is
  false and whose error message is not empty, and leave the process state as it was: the
  storage collaborator is not called.
\<close>

theorem invalid_type_rejected:
  assumes "Method r = ''POST''" and "untouched w"
    and "\<not> hasImageExtension (ToLower L filename)"
  shows "(Form r = ImageFile filename fsize \<longrightarrow>
            (case HandleUpload L gcsClient config w r st of
               (w', st') \<Rightarrow>
                 status (sent w') = Some 400
                 \<and> (\<exists>msg. msg \<noteq> []
                      \<and> body (sent w')
                          = [UploadJSON \<lparr>Success = False, URL = [], Message = [], Error = msg\<rparr>])
                 \<and> st' = st))
         \<and> (Body r = Some req \<and> Filename req = filename \<longrightarrow>
            (case HandleGenerateSignedUrl L gcsClient w r st of
               (w', st') \<Rightarrow>
                 status (sent w') = Some 400
                 \<and> (\<exists>msg. msg \<noteq> []
                      \<and> body (sent w')
                          = [UploadJSON \<lparr>Success = False, URL = [], Message = [], Error = msg\<rparr>])
                 \<and> st' = st))"
proof (intro conjI impI)
  have n: "\<not> isValidImageType L filename"
    using assms(3) by (simp add: isValidImageType_iff)
  {
    assume "Form r = ImageFile filename fsize"
    note eq = HandleUpload_invalid [OF assms(1) n this, of gcsClient config w st]
    have neq: "(if fsize > MaxFileSize config
                then ''File too large. Max size: ''
                     @ Itoa (quo (MaxFileSize config) (1024 * 1024)) @ '' MB''
                else ''Invalid file type. Allowed: jpg, jpeg, png, gif, webp, bmp, svg'') \<noteq> []"
      by simp
    show "case HandleUpload L gcsClient config w r st of
               (w', st') \<Rightarrow>
                 status (sent w') = Some 400
                 \<and> (\<exists>msg. msg \<noteq> []
                      \<and> body (sent w')
                          = [UploadJSON \<lparr>Success = False, URL = [], Message = [], Error = msg\<rparr>])
                 \<and> st' = st"
      by (rule rejected [OF assms(2) eq neq])
  }
  {
    assume "Body r = Some req \<and> Filename req = filename"
    then have b: "Body r = Some req" and n': "\<not> isValidImageType L (Filename req)"
      using n by simp_all
    note eq = HandleGenerateSignedUrl_invalid [OF assms(1) n' b, of gcsClient w st]
    have neq: "(if Filename req = [] \<or> ContentType req = []
                then ''Filename and ContentType are required''
                else ''Invalid file type'') \<noteq> []"
      by simp
    show "case HandleGenerateSignedUrl L gcsClient w r st of
               (w', st') \<Rightarrow>
                 status (sent w') = Some 400
                 \<and> (\<exists>msg. msg \<noteq> []
                      \<and> body (sent w')
                          = [UploadJSON \<lparr>Success = False, URL = [], Message = [], Error = msg\<rparr>])
                 \<and> st' = st"
      by (rule rejected [OF assms(2) eq neq])
  }
qed

theorem invalid_type_rejected_witness:
  "Method textRequest = ''POST''
   \<and> untouched (Response (newResponse NotHijacker))
   \<and> \<not> hasImageExtension (ToLower golib ''notes.txt'')
   \<and> status (sent (fst (HandleUpload golib (darlingimagesClientProd environment0) config0
                          (Response (newResponse NotHijacker)) textRequest state0))) = Some 400
   \<and> snd (HandleUpload golib (darlingimagesClientProd environment0) config0
             (Response (newResponse NotHijacker)) textRequest state0) = state0
   \<and> status (sent (fst (HandleGenerateSignedUrl golib (darlingimagesClientProd environment0)
                          (Response (newResponse NotHijacker)) textRequest state0))) = Some 400
   \<and> snd (HandleGenerateSignedUrl golib (darlingimagesClientProd environment0)
             (Response (newResponse NotHijacker)) textRequest state0) = state0"
proof -
  have m: "Method textRequest = ''POST''"
    by (simp add: textRequest_def request0_def)
  have u: "untouched (Response (newResponse NotHijacker))"
    by (rule untouched_newResponse)
  have f: "Form textRequest = ImageFile ''notes.txt'' 12"
    by (simp add: textRequest_def)
  have b: "Body textRequest = Some \<lparr>Filename = ''notes.txt'', ContentType = ''text/plain''\<rparr>
           \<and> Filename \<lparr>Filename = ''notes.txt'', ContentType = ''text/plain''\<rparr> = ''notes.txt''"
    by (simp add: textRequest_def)
  from invalid_type_rejected [OF m u notes_txt,
      where ?fsize = 12 and ?gcsClient = "darlingimagesClientProd environment0"
        and ?config = config0 and ?st = state0
        and ?req = "\<lparr>Filename = ''notes.txt'', ContentType = ''text/plain''\<rparr>"] f b
  show ?thesis using m u notes_txt by (simp add: case_prod_beta)
qed

section \<open>Request counting\<close>

lemma Itoa_200: "Itoa 200 = ''200''"
  by (simp add: Itoa_def utoa.simps digit_char_def)

lemma MetricsMiddleware_counts:
  assumes "Path r \<noteq> ''/metrics''"
  shows "httpRequestsTotal (snd (MetricsMiddleware L next w r st))
           = Inc (Method r, Path r, Itoa (statusCode (fst (next (newResponseWriter w) r st))),
                  Host r, getClientIP L r)
               (httpRequestsTotal (snd (next (newResponseWriter w) r st)))"
  using assms by (simp add: MetricsMiddleware_def Let_def case_prod_beta)

lemma map_of_upload:
  "map_of (authenticatedMux L env config) ''/upload''
     = Some (if APIKey1 config \<noteq> []
             then AuthMiddleware L (APIKey1 config) (AllowedIPs config)
                    (HandleUpload L (darlingimagesClientProd env) config)
             else HandleUpload L (darlingimagesClientProd env) config)"
  by (simp add: authenticatedMux_def)

lemma AuthMiddleware_passes:
  "\<not> keyDenied apiKey r \<Longrightarrow> \<not> ipDenied L allowedIPs r \<Longrightarrow>
     AuthMiddleware L apiKey allowedIPs next w r st = next w r st"
  by (auto simp: AuthMiddleware_def keyDenied_def ipDenied_def Let_def)

lemma statusCode_respond: "statusCode (respond code v (responseWriter u sc)) = code"
  by (simp add: respond_def)

lemma HandleUpload_success:
  assumes "uploadForwarded L env config r"
  shows "statusCode (fst (HandleUpload L (darlingimagesClientProd env) config
                            (responseWriter u sc) r st)) = 200"
    and "httpRequestsTotal (snd (HandleUpload L (darlingimagesClientProd env) config w r st))
           = httpRequestsTotal st"
  using assms
  by (auto simp: uploadForwarded_def HandleUpload_def Let_def statusCode_respond
      split: form.splits sum.splits)

lemma upload_route:
  assumes "uploadForwarded L env config r"
  shows "ServeMux (authenticatedMux L env config) w r st
           = HandleUpload L (darlingimagesClientProd env) config w r st"
proof -
  have p: "Path r = ''/upload''" using assms by (simp add: uploadForwarded_def)
  show ?thesis
  proof (cases "APIKey1 config = []")
    case True
    then show ?thesis by (simp add: ServeMux_def map_of_upload p)
  next
    case False
    with assms have "\<not> keyDenied (APIKey1 config) r" "\<not> ipDenied L (AllowedIPs config) r"
      by (simp_all add: uploadForwarded_def)
    then show ?thesis
      using False by (simp add: ServeMux_def map_of_upload p AuthMiddleware_passes)
  qed
qed

lemma CORS_forwards_wrapper:
  assumes "Method r \<noteq> ''OPTIONS''"
  shows "\<exists>u. CORSMiddleware allowedOrigins next (responseWriter w sc) r st
               = next (responseWriter u sc) r st"
  using assms by (auto simp: CORSMiddleware_def Let_def)

lemma handler_upload_counts:
  assumes "uploadForwarded L env config r"
  shows "httpRequestsTotal (snd (handler L env config w r st))
           = Inc (''POST'', ''/upload'', ''200'', Host r, getClientIP L r) (httpRequestsTotal st)"
proof -
  let ?next = "CORSMiddleware (AllowedOrigins config) (ServeMux (authenticatedMux L env config))"
  have m: "Method r = ''POST''" and p: "Path r = ''/upload''"
    using assms by (simp_all add: uploadForwarded_def)
  from m have "Method r \<noteq> ''OPTIONS''" by simp
  from CORS_forwards_wrapper [OF this, of "AllowedOrigins config"
      "ServeMux (authenticatedMux L env config)" w 200 st]
  obtain u where
    "?next (newResponseWriter w) r st
       = HandleUpload L (darlingimagesClientProd env) config (responseWriter u 200) r st"
    by (auto simp: newResponseWriter_def upload_route [OF assms])
  then have "statusCode (fst (?next (newResponseWriter w) r st)) = 200"
    and "httpRequestsTotal (snd (?next (newResponseWriter w) r st)) = httpRequestsTotal st"
    using HandleUpload_success [OF assms] by simp_all
  moreover have "Path r \<noteq> ''/metrics''" using p by simp
  ultimately show ?thesis
    by (simp add: handler_def MetricsMiddleware_counts m p Itoa_200)
qed

lemma serveAll_counts:
  assumes "\<forall>(w, r) \<in> set reqs. uploadForwarded L env config r \<and> Host r = host
             \<and> getClientIP L r = ip"
  shows "httpRequestsTotal (serveAll (handler L env config) reqs st)
           (''POST'', ''/upload'', ''200'', host, ip)
         = httpRequestsTotal st (''POST'', ''/upload'', ''200'', host, ip) + length reqs"
  using assms
proof (induction reqs arbitrary: st)
  case Nil
  then show ?case by simp
next
  case (Cons a reqs)
  obtain w r where a: "a = (w, r)" by (cases a)
  from Cons.prems a have f: "uploadForwarded L env config r" "Host r = host" "getClientIP L r = ip"
    by simp_all
  from Cons.prems have "\<forall>(w, r) \<in> set reqs. uploadForwarded L env config r \<and> Host r = host
             \<and> getClientIP L r = ip" by simp
  from Cons.IH [OF this, of "snd (handler L env config w r st)"]
  show ?case
    using handler_upload_counts [OF f(1), of w st] f(2,3)
    by (simp add: a Inc_def)
qed

lemma uploadForwarded_uploadRequest: "uploadForwarded golib environment0 config0 uploadRequest"
proof -
  have k: "\<not> keyDenied ''s3cret'' uploadRequest"
    by (simp add: keyDenied_def uploadRequest_def keyedRequest_def Header_Get_def)
  have c: "getClientIP golib uploadRequest = ''203.0.113.5''"
    by (simp add: getClientIP_def uploadRequest_def keyedRequest_def request0_def Header_Get_def
        go_SplitHostPort_def LastIndexByte_def checkBrackets_def)
  have i: "\<not> ipDenied golib [''203.0.113.0/24''] uploadRequest"
    by (simp add: ipDenied_def c isIPAllowed_def ParseIP_203_0_113_5 ParseCIDR_203_0_113_0
        ContainsSlash_def ipv4_Contains_def)
  have "ascii_ToLower ''Cat.PNG'' = ''cat.png''"
    by (simp add: ascii_ToLower_def ascii_lower_def)
  then have v: "isValidImageType golib ''Cat.PNG''"
    by (simp add: isValidImageType_def validExtensions_def HasSuffix_def)
  have f: "Form uploadRequest = ImageFile ''Cat.PNG'' 2048"
    "Method uploadRequest = ''POST''" "Path uploadRequest = ''/upload''"
    by (simp_all add: uploadRequest_def keyedRequest_def request0_def)
  show ?thesis
    using k i v by (simp add: uploadForwarded_def f config0_def environment0_def)
qed

text \<open>
  C7: for a request whose path is not \<^verbatim>\<open>/metrics\<close>, \<^verbatim>\<open>MetricsMiddleware\<close> adds one to
  the request counter at (method, path, captured status code, host, resolved client IP)
  and to no other cell, over the counters as the downstream handler left them. For the
  path \<^verbatim>\<open>/metrics\<close> it is the downstream handler and nothing more. After a sequence of
  successful forwarded uploads from one host and one client IP, the counter at
  (POST, /upload, 200, host, ip) has grown by the length of the sequence.
\<close>

theorem metrics_counted:
  "(Path r \<noteq> ''/metrics'' \<longrightarrow>
      (case next (newResponseWriter w) r st of
         (w1, st1) \<Rightarrow>
           \<forall>k. httpRequestsTotal (snd (MetricsMiddleware L next w r st)) k
                 = httpRequestsTotal st1 k
                   + (if k = (Method r, Path r, Itoa (statusCode w1), Host r, getClientIP L r)
                      then 1 else 0)))
   \<and> (Path r = ''/metrics'' \<longrightarrow> MetricsMiddleware L next w r st = next w r st)
   \<and> ((\<forall>(w, r) \<in> set reqs. uploadForwarded L env config r \<and> Host r = host
          \<and> getClientIP L r = ip) \<longrightarrow>
       httpRequestsTotal (serveAll (handler L env config) reqs st0)
         (''POST'', ''/upload'', ''200'', host, ip)
       = httpRequestsTotal st0 (''POST'', ''/upload'', ''200'', host, ip) + length reqs)"
proof (intro conjI impI)
  assume "Path r \<noteq> ''/metrics''"
  from MetricsMiddleware_counts [OF this, of L "next" w st]
  show "case next (newResponseWriter w) r st of
         (w1, st1) \<Rightarrow>
           \<forall>k. httpRequestsTotal (snd (MetricsMiddleware L next w r st)) k
                 = httpRequestsTotal st1 k
                   + (if k = (Method r, Path r, Itoa (statusCode w1), Host r, getClientIP L r)
                      then 1 else 0)"
    by (simp add: case_prod_beta Inc_def)
next
  assume "Path r = ''/metrics''"
  then show "MetricsMiddleware L next w r st = next w r st"
    by (simp add: MetricsMiddleware_def)
next
  assume "\<forall>(w, r) \<in> set reqs. uploadForwarded L env config r \<and> Host r = host
          \<and> getClientIP L r = ip"
  then show "httpRequestsTotal (serveAll (handler L env config) reqs st0)
         (''POST'', ''/upload'', ''200'', host, ip)
       = httpRequestsTotal st0 (''POST'', ''/upload'', ''200'', host, ip) + length reqs"
    by (rule serveAll_counts)
qed

theorem metrics_counted_witness:
  "uploadForwarded golib environment0 config0 uploadRequest
   \<and> httpRequestsTotal
       (serveAll (handler golib environment0 config0)
          [(Response (newResponse Hijackable), uploadRequest),
           (Response (newResponse NotHijacker), uploadRequest)] state0)
       (''POST'', ''/upload'', ''200'', ''img.example.com'', ''203.0.113.5'') = 2
   \<and> MetricsMiddleware golib pass (Response (newResponse NotHijacker)) metricsRequest state0
       = pass (Response (newResponse NotHijacker)) metricsRequest state0"
proof -
  let ?reqs = "[(Response (newResponse Hijackable), uploadRequest),
                (Response (newResponse NotHijacker), uploadRequest)]"
  have c: "getClientIP golib uploadRequest = ''203.0.113.5''"
    by (simp add: getClientIP_def uploadRequest_def keyedRequest_def request0_def Header_Get_def
        go_SplitHostPort_def LastIndexByte_def checkBrackets_def)
  have h: "Host uploadRequest = ''img.example.com''"
    by (simp add: uploadRequest_def keyedRequest_def request0_def)
  have a: "\<forall>(w, r) \<in> set ?reqs. uploadForwarded golib environment0 config0 r
             \<and> Host r = ''img.example.com'' \<and> getClientIP golib r = ''203.0.113.5''"
    using uploadForwarded_uploadRequest c h by simp
  have p: "Path metricsRequest = ''/metrics''"
    by (simp add: metricsRequest_def)
  have z: "httpRequestsTotal state0 k = 0" for k
    by (simp add: state0_def)
  from metrics_counted [where ?r = metricsRequest and ?next = pass and ?L = golib
      and ?w = "Response (newResponse NotHijacker)" and ?st = state0
      and ?reqs = ?reqs and ?env = environment0 and ?config = config0
      and ?host = "''img.example.com''" and ?ip = "''203.0.113.5''" and ?st0.0 = state0]
  show ?thesis using a p uploadForwarded_uploadRequest by (simp add: z)
qed

section \<open>Routes without a secret\<close>

text \<open>
  C9 does not hold of \<^verbatim>\<open>main\<close>: without a secret only \<^verbatim>\<open>/upload\<close> is registered
  (with no gate in front of it); \<^verbatim>\<open>/upload-dev\<close>, \<^verbatim>\<open>/signedurl\<close> and
  \<^verbatim>\<open>/signedurl-dev\<close>, which the branch for a configured secret registers, are answered
  by the multiplexer's not-found handler.
\<close>

theorem unauthenticated_routes:
  assumes "APIKey1 config = []"
  shows "(Path r = ''/upload'' \<longrightarrow>
            ServeMux (authenticatedMux L env config) w r st
              = HandleUpload L (darlingimagesClientProd env) config w r st)
         \<and> (Path r \<in> {''/upload-dev'', ''/signedurl'', ''/signedurl-dev''} \<longrightarrow>
            ServeMux (authenticatedMux L env config) w r st = NotFound w r st)"
  using assms by (auto simp: ServeMux_def authenticatedMux_def)

theorem unauthenticated_routes_witness:
  "APIKey1 openConfig = []
   \<and> Path signRequest = ''/signedurl''
   \<and> ServeMux (authenticatedMux golib environment0 openConfig)
         (Response (newResponse NotHijacker)) signRequest state0
       = NotFound (Response (newResponse NotHijacker)) signRequest state0
   \<and> status (sent (fst (NotFound (Response (newResponse NotHijacker)) signRequest state0)))
       = Some 404
   \<and> body (sent (fst (NotFound (Response (newResponse NotHijacker)) signRequest state0)))
       = [Text (''404 page not found'' @ [CHR 0x0A])]
   \<and> storage (snd (NotFound (Response (newResponse NotHijacker)) signRequest state0)) = []"
proof -
  have k: "APIKey1 openConfig = []" by (simp add: openConfig_def)
  have p: "Path signRequest = ''/signedurl''" by (simp add: signRequest_def)
  from unauthenticated_routes [OF k, where ?r = signRequest and ?L = golib
      and ?env = environment0 and ?w = "Response (newResponse NotHijacker)" and ?st = state0]
  show ?thesis using k p
    by (simp add: NotFound_def Let_def sent_Write sent_WriteHeader sent_Header_Set
        newResponse_def state0_def)
qed

section \<open>Denial in the composed server\<close>

text \<open>
  In the server that \<^verbatim>\<open>main\<close> composes, the gates of a protected route run behind the
  metrics wrapper \<^verbatim>\<open>responseWriter\<close>, which embeds the \<^verbatim>\<open>http.ResponseWriter\<close>
  interface and so has no \<^verbatim>\<open>Hijack\<close> method: the assertion \<^verbatim>\<open>w.(http.Hijacker)\<close>
  of \<^verbatim>\<open>AuthMiddleware\<close> fails there on every transport.
  A denied request is therefore answered there with status 404 and an empty body.
\<close>

lemma protected_route:
  assumes "APIKey1 config \<noteq> []"
    and "Path r \<in> {''/upload'', ''/signedurl'', ''/upload-dev'', ''/signedurl-dev''}"
  shows "\<exists>h. ServeMux (authenticatedMux L env config) w r st
               = AuthMiddleware L (APIKey1 config) (AllowedIPs config) h w r st"
  using assms by (auto simp: ServeMux_def authenticatedMux_def)

lemma CORS_forwards_headers:
  assumes "Method r \<noteq> ''OPTIONS''"
  shows "\<exists>u. CORSMiddleware allowedOrigins next (responseWriter w sc) r st
               = next (responseWriter u sc) r st
             \<and> sent u = (sent w)\<lparr>headers := headers (sent u)\<rparr>"
proof (cases "isOriginAllowed (Header_Get (Header r) ''Origin'') allowedOrigins")
  case True
  let ?u = "Header_Set ''Access-Control-Max-Age'' ''3600''
             (Header_Set ''Access-Control-Allow-Headers'' ''Content-Type, X-API-Key''
               (Header_Set ''Access-Control-Allow-Methods'' ''POST, GET, OPTIONS''
                 (Header_Set ''Access-Control-Allow-Origin'' (Header_Get (Header r) ''Origin'') w)))"
  have "CORSMiddleware allowedOrigins next (responseWriter w sc) r st
          = next (responseWriter ?u sc) r st"
    using assms True by (simp add: CORSMiddleware_def Let_def)
  moreover have "sent ?u = (sent w)\<lparr>headers := headers (sent ?u)\<rparr>"
    by (simp add: sent_Header_Set)
  ultimately show ?thesis by blast
next
  case False
  let ?u = "Header_Set ''Access-Control-Max-Age'' ''3600''
             (Header_Set ''Access-Control-Allow-Headers'' ''Content-Type, X-API-Key''
               (Header_Set ''Access-Control-Allow-Methods'' ''POST, GET, OPTIONS'' w))"
  have "CORSMiddleware allowedOrigins next (responseWriter w sc) r st
          = next (responseWriter ?u sc) r st"
    using assms False by (simp add: CORSMiddleware_def Let_def)
  moreover have "sent ?u = (sent w)\<lparr>headers := headers (sent ?u)\<rparr>"
    by (simp add: sent_Header_Set)
  ultimately show ?thesis by blast
qed

lemma untouched_headers:
  "untouched w \<Longrightarrow> sent u = (sent w)\<lparr>headers := hs\<rparr> \<Longrightarrow> untouched u"
  by (simp add: untouched_def)

lemma handler_denied:
  assumes "APIKey1 config \<noteq> []"
    and "Path r \<in> {''/upload'', ''/signedurl'', ''/upload-dev'', ''/signedurl-dev''}"
    and "Method r \<noteq> ''OPTIONS''"
    and "keyDenied (APIKey1 config) r \<or> ipDenied L (AllowedIPs config) r"
    and "untouched w"
  shows "status (sent (fst (handler L env config w r st))) = Some 404
         \<and> body (sent (fst (handler L env config w r st))) = []
         \<and> \<not> closed (sent (fst (handler L env config w r st)))
         \<and> storage (snd (handler L env config w r st)) = storage st"
proof -
  let ?mux = "ServeMux (authenticatedMux L env config)"
  from CORS_forwards_headers [OF assms(3), of "AllowedOrigins config" ?mux w 200 st]
  obtain u where c: "CORSMiddleware (AllowedOrigins config) ?mux (newResponseWriter w) r st
                       = ?mux (responseWriter u 200) r st"
    and su: "sent u = (sent w)\<lparr>headers := headers (sent u)\<rparr>"
    by (auto simp: newResponseWriter_def)
  have uu: "untouched u" using assms(5) su by (rule untouched_headers)
  from protected_route [OF assms(1,2), of L env "responseWriter u 200" st]
  obtain h where "?mux (responseWriter u 200) r st
                    = AuthMiddleware L (APIKey1 config) (AllowedIPs config) h
                        (responseWriter u 200) r st"
    by blast
  then have m: "?mux (responseWriter u 200) r st = (responseWriter (WriteHeader 404 u) 404, st)"
    using assms(4) by (simp add: AuthMiddleware_denied stealth_def)
  have p: "Path r \<noteq> ''/metrics''" using assms(2) by auto
  have f: "fst (handler L env config w r st) = WriteHeader 404 u"
    and s: "storage (snd (handler L env config w r st)) = storage st"
    using p c m by (simp_all add: handler_def MetricsMiddleware_def Let_def)
  have "sent (WriteHeader 404 u) = (sent u)\<lparr>status := Some 404\<rparr>"
    using uu by (simp add: sent_WriteHeader untouched_def)
  then show ?thesis using f s uu by (simp add: untouched_def)
qed

text \<open>
  C1 does not hold of the server: for a denied request to a protected route (a secret
  being configured, the method not OPTIONS, nothing sent yet), the composed handler
  answers 404 with an empty body, leaves the connection open and calls no storage,
  also when the transport supports hijacking; \<^verbatim>\<open>AuthMiddleware\<close> given the same writer
  without the metrics wrapper closes the connection when it can be hijacked. No other
  status and no body is produced.
\<close>

theorem denial_behind_metrics:
  assumes "APIKey1 config \<noteq> []"
    and "Path r \<in> {''/upload'', ''/signedurl'', ''/upload-dev'', ''/signedurl-dev''}"
    and "Method r \<noteq> ''OPTIONS''"
    and "keyDenied (APIKey1 config) r \<or> ipDenied L (AllowedIPs config) r"
    and "untouched w"
  shows "status (sent (fst (handler L env config w r st))) = Some 404
         \<and> body (sent (fst (handler L env config w r st))) = []
         \<and> \<not> closed (sent (fst (handler L env config w r st)))
         \<and> storage (snd (handler L env config w r st)) = storage st
         \<and> closed (sent (fst (AuthMiddleware L (APIKey1 config) (AllowedIPs config) next
                                 w r st))) = canHijack w"
proof -
  from AuthMiddleware_stealth [OF assms(4,5), where ?next = "next" and ?st = st]
  have "closed (sent (fst (AuthMiddleware L (APIKey1 config) (AllowedIPs config) next
                             w r st))) = canHijack w"
    by (simp add: case_prod_beta split: if_splits)
  with handler_denied [OF assms, where ?env = env and ?st = st] show ?thesis by blast
qed

theorem denial_behind_metrics_witness:
  "canHijack (Response (newResponse Hijackable))
   \<and> untouched (Response (newResponse Hijackable))
   \<and> keyDenied (APIKey1 config0) request0
   \<and> status (sent (fst (handler golib environment0 config0
                          (Response (newResponse Hijackable)) request0 state0))) = Some 404
   \<and> body (sent (fst (handler golib environment0 config0
                          (Response (newResponse Hijackable)) request0 state0))) = []
   \<and> \<not> closed (sent (fst (handler golib environment0 config0
                          (Response (newResponse Hijackable)) request0 state0)))
   \<and> closed (sent (fst (AuthMiddleware golib (APIKey1 config0) (AllowedIPs config0) pass
                          (Response (newResponse Hijackable)) request0 state0)))"
proof -
  have k: "APIKey1 config0 \<noteq> []" by (simp add: config0_def)
  have p: "Path request0 \<in> {''/upload'', ''/signedurl'', ''/upload-dev'', ''/signedurl-dev''}"
    by (simp add: request0_def)
  have m: "Method request0 \<noteq> ''OPTIONS''" by (simp add: request0_def)
  have d: "keyDenied (APIKey1 config0) request0" by (simp add: keyDenied_def request0_def)
  then have d': "keyDenied (APIKey1 config0) request0
                 \<or> ipDenied golib (AllowedIPs config0) request0" ..
  have u: "untouched (Response (newResponse Hijackable))" by (rule untouched_newResponse)
  have c: "canHijack (Response (newResponse Hijackable))" by (simp add: newResponse_def)
  from denial_behind_metrics [OF k p m d' u, where ?env = environment0 and ?st = state0
      and ?next = pass]
  show ?thesis using c u d by simp
qed

end
